theory Spec2Isabelle
  imports Complex_Main "HOL-Library.AList" "HOL-Library.Product_Lexorder"
begin

section \<open>Floating-point values\<close>

text \<open>
  The forecasting module computes with Python floats and numpy float64 arrays. A value is
  modelled as an exact real or one of the IEEE special values: infinity of either sign and
  not-a-number. numpy does not raise on a division by zero or on a logarithm outside its
  domain (it warns, and the module silences warnings on import), so these special values
  are results the functions really return. Rounding, overflow and the sign of zero are
  outside the model: finite arithmetic is exact.
\<close>

datatype npfloat = Fin real | PInf | NInf | NaN

instantiation npfloat :: "{plus, minus, uminus, times, inverse, ord}"
begin

fun plus_npfloat :: "npfloat \<Rightarrow> npfloat \<Rightarrow> npfloat" where
  "Fin a + Fin b = Fin (a + b)"
| "NaN + _ = NaN"
| "_ + NaN = NaN"
| "PInf + NInf = NaN"
| "NInf + PInf = NaN"
| "PInf + _ = PInf"
| "_ + PInf = PInf"
| "NInf + _ = NInf"
| "_ + NInf = NInf"

fun uminus_npfloat :: "npfloat \<Rightarrow> npfloat" where
  "- Fin a = Fin (- a)"
| "- PInf = NInf"
| "- NInf = PInf"
| "- NaN = NaN"

definition minus_npfloat :: "npfloat \<Rightarrow> npfloat \<Rightarrow> npfloat" where
  "a - b = a + (- (b::npfloat))"

fun times_npfloat :: "npfloat \<Rightarrow> npfloat \<Rightarrow> npfloat" where
  "Fin a * Fin b = Fin (a * b)"
| "NaN * _ = NaN"
| "_ * NaN = NaN"
| "PInf * Fin b = (if b = 0 then NaN else if 0 < b then PInf else NInf)"
| "NInf * Fin b = (if b = 0 then NaN else if 0 < b then NInf else PInf)"
| "Fin a * PInf = (if a = 0 then NaN else if 0 < a then PInf else NInf)"
| "Fin a * NInf = (if a = 0 then NaN else if 0 < a then NInf else PInf)"
| "PInf * PInf = PInf"
| "PInf * NInf = NInf"
| "NInf * PInf = NInf"
| "NInf * NInf = PInf"

fun divide_npfloat :: "npfloat \<Rightarrow> npfloat \<Rightarrow> npfloat" where
  "Fin a div Fin b =
     (if b = 0 then (if a = 0 then NaN else if 0 < a then PInf else NInf)
      else Fin (a / b))"
| "NaN div _ = NaN"
| "_ div NaN = NaN"
| "Fin a div PInf = Fin 0"
| "Fin a div NInf = Fin 0"
| "PInf div Fin b = (if 0 \<le> b then PInf else NInf)"
| "NInf div Fin b = (if 0 \<le> b then NInf else PInf)"
| "PInf div PInf = NaN"
| "PInf div NInf = NaN"
| "NInf div PInf = NaN"
| "NInf div NInf = NaN"

definition inverse_npfloat :: "npfloat \<Rightarrow> npfloat" where
  "inverse a = Fin 1 div (a::npfloat)"

fun less_eq_npfloat :: "npfloat \<Rightarrow> npfloat \<Rightarrow> bool" where
  "Fin a \<le> Fin b \<longleftrightarrow> a \<le> b"
| "NaN \<le> _ \<longleftrightarrow> False"
| "_ \<le> NaN \<longleftrightarrow> False"
| "NInf \<le> _ \<longleftrightarrow> True"
| "_ \<le> PInf \<longleftrightarrow> True"
| "PInf \<le> _ \<longleftrightarrow> False"
| "_ \<le> NInf \<longleftrightarrow> False"

fun less_npfloat :: "npfloat \<Rightarrow> npfloat \<Rightarrow> bool" where
  "Fin a < Fin b \<longleftrightarrow> a < b"
| "NaN < _ \<longleftrightarrow> False"
| "_ < NaN \<longleftrightarrow> False"
| "PInf < _ \<longleftrightarrow> False"
| "_ < NInf \<longleftrightarrow> False"
| "NInf < _ \<longleftrightarrow> True"
| "_ < PInf \<longleftrightarrow> True"

instance ..

end

fun is_fin :: "npfloat \<Rightarrow> bool" where
  "is_fin (Fin a) = True"
| "is_fin _ = False"

text \<open>Python's built-in \<open>min(a, b)\<close>: the first argument unless the second is smaller.\<close>

definition py_min :: "npfloat \<Rightarrow> npfloat \<Rightarrow> npfloat" where
  "py_min a b = (if b < a then b else a)"

section \<open>Scenario forecaster\<close>

text \<open>
  The dictionary returned by \<open>scenario_forecast\<close> holds a list of years under the key
  \<open>years\<close> and a list of floats under each scenario name. Python dictionaries keep
  insertion order and an assignment to an existing key replaces its value in place, which
  is what \<open>AList.update\<close> does on an association list.
\<close>

datatype pyval = YearList "int list" | ValueList "npfloat list"

fun pylen :: "pyval \<Rightarrow> nat" where
  "pylen (YearList ys) = length ys"
| "pylen (ValueList vs) = length vs"

definition default_scenarios :: "(string \<times> npfloat) list" where
  "default_scenarios =
     [(''optimistic'', Fin 4), (''base'', Fin 2.5), (''pessimistic'', Fin 1)]"

text \<open>The inner loop: \<open>value\<close> and the list \<open>forecasts\<close> are the loop's state.\<close>

fun scenario_years_loop ::
  "npfloat \<Rightarrow> int list \<Rightarrow> npfloat \<Rightarrow> npfloat list \<Rightarrow> npfloat list" where
  "scenario_years_loop annual_growth [] value forecasts = forecasts"
| "scenario_years_loop annual_growth (year # rest) value forecasts =
     (let value' = py_min (value + annual_growth) (Fin 100)
      in scenario_years_loop annual_growth rest value' (forecasts @ [value']))"

text \<open>The outer loop over \<open>scenarios.items()\<close>, with the dictionary \<open>results\<close> as state.\<close>

fun scenario_items_loop ::
  "npfloat \<Rightarrow> int list \<Rightarrow> (string \<times> npfloat) list \<Rightarrow> (string \<times> pyval) list
     \<Rightarrow> (string \<times> pyval) list" where
  "scenario_items_loop current_value forecast_years [] results = results"
| "scenario_items_loop current_value forecast_years ((scenario, annual_growth) # rest) results =
     scenario_items_loop current_value forecast_years rest
       (AList.update scenario
          (ValueList (scenario_years_loop annual_growth forecast_years current_value []))
          results)"

definition scenario_forecast ::
  "npfloat \<Rightarrow> npfloat \<Rightarrow> int \<Rightarrow> int \<Rightarrow> (string \<times> npfloat) list option
     \<Rightarrow> (string \<times> pyval) list" where
  "scenario_forecast current_value target_value target_year current_year scenarios =
     (let scenarios' = (case scenarios of None \<Rightarrow> default_scenarios | Some s \<Rightarrow> s);
          forecast_years = [current_year + 1 .. target_year];
          results = [(''years'', YearList forecast_years)]
      in scenario_items_loop current_value forecast_years scenarios' results)"

section \<open>Errors and the numpy operations the module calls\<close>

datatype py_error = TypeError | ValueError | IndexError | ZeroDivisionError | LinAlgError

fun np_sqrt :: "npfloat \<Rightarrow> npfloat" where
  "np_sqrt (Fin a) = (if a < 0 then NaN else Fin (sqrt a))"
| "np_sqrt PInf = PInf"
| "np_sqrt NInf = NaN"
| "np_sqrt NaN = NaN"

text \<open>\<open>np.log1p(a)\<close> is \<open>log(1 + a)\<close>: minus infinity at \<open>-1\<close>, not-a-number below.\<close>

fun np_log1p :: "npfloat \<Rightarrow> npfloat" where
  "np_log1p (Fin a) = (if a < - 1 then NaN else if a = - 1 then NInf else Fin (ln (1 + a)))"
| "np_log1p PInf = PInf"
| "np_log1p NInf = NaN"
| "np_log1p NaN = NaN"

definition np_square :: "npfloat \<Rightarrow> npfloat" where
  "np_square a = a * a"

definition np_sum :: "npfloat list \<Rightarrow> npfloat" where
  "np_sum xs = foldl (+) (Fin 0) xs"

text \<open>The mean of an empty array is \<open>0 / 0\<close>, not-a-number, with a warning only.\<close>

definition np_mean :: "npfloat list \<Rightarrow> npfloat" where
  "np_mean xs = np_sum xs / Fin (real (length xs))"

text \<open>\<open>np.std\<close> with its default \<open>ddof = 0\<close>: the population standard deviation.\<close>

definition np_std :: "npfloat list \<Rightarrow> npfloat" where
  "np_std xs = np_sqrt (np_mean (map (\<lambda>x. np_square (x - np_mean xs)) xs))"

text \<open>\<open>ndarray.min()\<close> of an integer array raises ValueError on an empty array.\<close>

definition np_min :: "int list \<Rightarrow> py_error + int" where
  "np_min xs = (case xs of [] \<Rightarrow> Inl ValueError | x # rest \<Rightarrow> Inr (fold min rest x))"

fun the_reals :: "npfloat list \<Rightarrow> real list option" where
  "the_reals [] = Some []"
| "the_reals (Fin a # xs) = map_option ((#) a) (the_reals xs)"
| "the_reals (_ # xs) = None"

text \<open>
  \<open>np.polyfit(x, y, 1)\<close> belongs to numpy, not to this repository, and numpy's code is
  not part of what is verified here. It is modelled after numpy's described behaviour,
  which is an assumption of every statement about the trend fits: a TypeError for an empty
  \<open>x\<close> or for
  \<open>x\<close> and \<open>y\<close> of different lengths; otherwise the least-squares solution of
  \<open>y = slope * x + intercept\<close>, which is unique when the \<open>x\<close> are not all equal. When
  they are all equal the system is rank deficient: polyfit scales the two columns of the
  design matrix to unit length, takes the minimum-norm least-squares solution, undoes the
  scaling and issues a RankWarning, which is no exception. In exact arithmetic that
  solution is \<open>slope = mean y / (2 * x0)\<close>, \<open>intercept = mean y / 2\<close> for the common
  value \<open>x0\<close>. With \<open>x0 = 0\<close> the scaling divides zero by zero and the solver is given
  not-a-number entries, as it is when the input itself has non-finite entries; the solver
  then reports that it did not converge (LinAlgError).
\<close>

definition lstsq_line :: "real list \<Rightarrow> real list \<Rightarrow> py_error + (real \<times> real)" where
  "lstsq_line x y =
     (let n = real (length x);
          mx = sum_list x / n;
          my = sum_list y / n;
          sxx = sum_list (map (\<lambda>xi. (xi - mx) * (xi - mx)) x);
          sxy = sum_list (map2 (\<lambda>xi yi. (xi - mx) * (yi - my)) x y)
      in if sxx \<noteq> 0 then Inr (sxy / sxx, my - sxy / sxx * mx)
         else if mx = 0 then Inl LinAlgError
         else Inr (my / (2 * mx), my / 2))"

definition polyfit :: "npfloat list \<Rightarrow> npfloat list \<Rightarrow> py_error + (npfloat \<times> npfloat)" where
  "polyfit x y =
     (if x = [] then Inl TypeError
      else if length x \<noteq> length y then Inl TypeError
      else case (the_reals x, the_reals y) of
             (Some xs, Some ys) \<Rightarrow>
               (case lstsq_line xs ys of
                  Inl e \<Rightarrow> Inl e
                | Inr (slope, intercept) \<Rightarrow> Inr (Fin slope, Fin intercept))
           | _ \<Rightarrow> Inl LinAlgError)"

section \<open>Trend forecasters\<close>

text \<open>
  Historical years are an integer array and historical values a float array with finite
  entries; forecast years are a list of integers. The arrays handed to numpy are float
  arrays, so the years are converted first.
\<close>

definition of_year :: "int \<Rightarrow> npfloat" where
  "of_year y = Fin (real_of_int y)"

definition linear_trend_forecast ::
  "int list \<Rightarrow> real list \<Rightarrow> int list
     \<Rightarrow> py_error + (npfloat list \<times> npfloat list \<times> npfloat list)" where
  "linear_trend_forecast years values forecast_years =
     (case polyfit (map of_year years) (map Fin values) of
        Inl e \<Rightarrow> Inl e
      | Inr (slope, intercept) \<Rightarrow>
          (let forecast = map (\<lambda>y. slope * of_year y + intercept) forecast_years;
               fitted = map (\<lambda>y. slope * of_year y + intercept) years;
               residuals = map2 (-) (map Fin values) fitted;
               std_error = np_std residuals
           in if length years = 0 then Inl ZeroDivisionError
              else
                (let years_mean = np_mean (map of_year years);
                     margin = map (\<lambda>y. Fin 1.96 * std_error *
                                 np_sqrt (Fin 1 + Fin (1 / real (length years)) +
                                   np_square (of_year y - years_mean) /
                                   np_sum (map (\<lambda>x. np_square (of_year x - years_mean)) years)))
                                forecast_years;
                     lower = map2 (-) forecast margin;
                     upper = map2 (+) forecast margin
                 in Inr (forecast, lower, upper))))"

definition log_trend_forecast ::
  "int list \<Rightarrow> real list \<Rightarrow> int list
     \<Rightarrow> py_error + (npfloat list \<times> npfloat list \<times> npfloat list)" where
  "log_trend_forecast years values forecast_years =
     (case np_min years of
        Inl e \<Rightarrow> Inl e
      | Inr base_year \<Rightarrow>
          (let log_years = map (\<lambda>y. np_log1p (of_year (y - base_year + 1))) years;
               log_forecast_years =
                 map (\<lambda>y. np_log1p (of_year (y - base_year + 1))) forecast_years
           in case polyfit log_years (map Fin values) of
                Inl e \<Rightarrow> Inl e
              | Inr (slope, intercept) \<Rightarrow>
                  (let forecast = map (\<lambda>l. slope * l + intercept) log_forecast_years;
                       fitted = map (\<lambda>l. slope * l + intercept) log_years;
                       residuals = map2 (-) (map Fin values) fitted;
                       std_error = np_std residuals;
                       margin = Fin 1.96 * std_error;
                       lower = map (\<lambda>f. f - margin) forecast;
                       upper = map (\<lambda>f. f + margin) forecast
                   in Inr (forecast, lower, upper))))"

section \<open>Growth-rate analyzer\<close>

text \<open>One row of the returned data frame.\<close>

record growth_row =
  period_start :: int
  period_end :: int
  period_years :: int
  start_value :: real
  end_value :: real
  total_growth_pp :: real
  annual_growth_pp :: npfloat

text \<open>
  The years are a numpy array of 64-bit signed integers, so the difference of two of them
  is computed modulo \<open>2^64\<close> and read as a signed number.
\<close>

definition int64_wrap :: "int \<Rightarrow> int" where
  "int64_wrap x = (x + 2 ^ 63) mod 2 ^ 64 - 2 ^ 63"

text \<open>
  The loop over \<open>range(1, len(years))\<close>. Reading \<open>values[i]\<close> past the end of the array
  raises IndexError; dividing a numpy float by a numpy zero does not raise.
\<close>

fun growth_loop ::
  "int list \<Rightarrow> real list \<Rightarrow> nat list \<Rightarrow> growth_row list \<Rightarrow> py_error + growth_row list" where
  "growth_loop years values [] data = Inr data"
| "growth_loop years values (i # rest) data =
     (if length values \<le> i then Inl IndexError
      else
        (let span = int64_wrap (years ! i - years ! (i - 1));
             total_growth = values ! i - values ! (i - 1);
             annual_growth = Fin total_growth / of_year span
         in growth_loop years values rest
              (data @ [\<lparr>period_start = years ! (i - 1), period_end = years ! i,
                        period_years = span, start_value = values ! (i - 1),
                        end_value = values ! i, total_growth_pp = total_growth,
                        annual_growth_pp = annual_growth\<rparr>])))"

definition calculate_growth_rates :: "int list \<Rightarrow> real list \<Rightarrow> py_error + growth_row list" where
  "calculate_growth_rates years values = growth_loop years values [1 ..< length years] []"

section \<open>Indicator forecast aggregator\<close>

text \<open>
  A row of the unified data frame, with the four columns the aggregator reads. The
  observation date is a (year, month, day) triple, ordered lexicographically, and the value
  is a finite float.
\<close>

record obs_row =
  record_type :: string
  indicator_code :: string
  observation_date :: "int \<times> int \<times> int"
  value_numeric :: real

text \<open>The values stored in the dictionary of one indicator.\<close>

datatype pyobj =
  PStr string | PInt int | PFloat npfloat | PIntList "int list" | PFloatList "npfloat list"

text \<open>
  \<open>observations[observations['indicator_code'] == code].sort_values('observation_date')\<close>.
  Rows with equal dates are kept in their original order here; pandas does not promise an
  order for them.
\<close>

definition select_indicator :: "string \<Rightarrow> obs_row list \<Rightarrow> obs_row list" where
  "select_indicator code observations =
     sort_key observation_date (filter (\<lambda>r. indicator_code r = code) observations)"

text \<open>
  The source builds the dictionary of an indicator twice, once for \<open>access\<close> and once for
  \<open>usage\<close>, with the same statements: both trend fits, then the last value and the last
  year (an IndexError on an empty array), then the dictionary literal.
\<close>

definition indicator_entry ::
  "string \<Rightarrow> string \<Rightarrow> real \<Rightarrow> int list \<Rightarrow> real list \<Rightarrow> int list
     \<Rightarrow> py_error + (string \<times> pyobj) list" where
  "indicator_entry name code target_value years values forecast_years =
     (case linear_trend_forecast years values forecast_years of
        Inl e \<Rightarrow> Inl e
      | Inr (lin, lin_lower, lin_upper) \<Rightarrow>
          (case log_trend_forecast years values forecast_years of
             Inl e \<Rightarrow> Inl e
           | Inr (lg, lg_lower, lg_upper) \<Rightarrow>
               if values = [] \<or> years = [] then Inl IndexError
               else Inr [(''indicator'', PStr name),
                         (''code'', PStr code),
                         (''current_value'', PFloat (Fin (last values))),
                         (''current_year'', PInt (last years)),
                         (''historical_years'', PIntList years),
                         (''historical_values'', PFloatList (map Fin values)),
                         (''forecast_years'', PIntList forecast_years),
                         (''linear_forecast'', PFloatList lin),
                         (''linear_lower'', PFloatList lin_lower),
                         (''linear_upper'', PFloatList lin_upper),
                         (''log_forecast'', PFloatList lg),
                         (''log_lower'', PFloatList lg_lower),
                         (''log_upper'', PFloatList lg_upper),
                         (''target'', PFloat (Fin target_value)),
                         (''target_year'', PInt 2025)]))"

definition forecast_access_usage ::
  "obs_row list \<Rightarrow> int list option
     \<Rightarrow> py_error + (string \<times> (string \<times> pyobj) list) list" where
  "forecast_access_usage df forecast_years_arg =
     (let forecast_years = (case forecast_years_arg of
                              None \<Rightarrow> [2025, 2026, 2027] | Some ys \<Rightarrow> ys);
          observations = filter (\<lambda>r. record_type r = ''observation'') df;
          results = [];
          acc_data = select_indicator ''ACC_OWNERSHIP'' observations;
          acc_years = map (\<lambda>r. fst (observation_date r)) acc_data;
          acc_values = map value_numeric acc_data
      in case indicator_entry ''Account Ownership Rate'' ''ACC_OWNERSHIP'' 60
                acc_years acc_values forecast_years of
           Inl e \<Rightarrow> Inl e
         | Inr access \<Rightarrow>
             (let results' = AList.update ''access'' access results;
                  usg_data = select_indicator ''USG_DIGITAL_PAYMENT'' observations
              in if 2 \<le> length usg_data then
                   (let usg_years = map (\<lambda>r. fst (observation_date r)) usg_data;
                        usg_values = map value_numeric usg_data
                    in case indicator_entry ''Digital Payment Adoption'' ''USG_DIGITAL_PAYMENT'' 50
                              usg_years usg_values forecast_years of
                         Inl e \<Rightarrow> Inl e
                       | Inr usage \<Rightarrow> Inr (AList.update ''usage'' usage results'))
                 else Inr results'))"

section \<open>Descriptions used in the statements\<close>

text \<open>
  The definitions of this section are not translations of source functions: they write
  down, over the reals, the quantities the specification names, so that the theorems can
  compare them with what the code computes.
\<close>

definition growth_row_at :: "int list \<Rightarrow> real list \<Rightarrow> nat \<Rightarrow> growth_row" where
  "growth_row_at years values i =
     \<lparr>period_start = years ! (i - 1), period_end = years ! i,
      period_years = int64_wrap (years ! i - years ! (i - 1)),
      start_value = values ! (i - 1), end_value = values ! i,
      total_growth_pp = values ! i - values ! (i - 1),
      annual_growth_pp = Fin (values ! i - values ! (i - 1))
                           / of_year (int64_wrap (years ! i - years ! (i - 1)))\<rparr>"

definition mean_of :: "real list \<Rightarrow> real" where
  "mean_of xs = sum_list xs / real (length xs)"

definition sum_sq_dev :: "real list \<Rightarrow> real" where
  "sum_sq_dev xs = sum_list (map (\<lambda>x. (x - mean_of xs)\<^sup>2) xs)"

text \<open>The population standard deviation: the divisor is the number of points.\<close>

definition pop_std :: "real list \<Rightarrow> real" where
  "pop_std xs = sqrt (sum_sq_dev xs / real (length xs))"

text \<open>The sum of squared errors of the line \<open>a * x + b\<close>, which least squares minimises.\<close>

definition sq_error :: "real \<Rightarrow> real \<Rightarrow> real list \<Rightarrow> real list \<Rightarrow> real" where
  "sq_error a b xs ys = sum_list (map2 (\<lambda>x y. (y - (a * x + b))\<^sup>2) xs ys)"

definition ols_slope :: "real list \<Rightarrow> real list \<Rightarrow> real" where
  "ols_slope xs ys =
     sum_list (map2 (\<lambda>x y. (x - mean_of xs) * (y - mean_of ys)) xs ys) / sum_sq_dev xs"

definition ols_intercept :: "real list \<Rightarrow> real list \<Rightarrow> real" where
  "ols_intercept xs ys = mean_of ys - ols_slope xs ys * mean_of xs"

text \<open>Observed minus fitted.\<close>

definition residuals_of :: "real \<Rightarrow> real \<Rightarrow> real list \<Rightarrow> real list \<Rightarrow> real list" where
  "residuals_of a b xs ys = map2 (\<lambda>x y. y - (a * x + b)) xs ys"

definition linear_margin :: "real \<Rightarrow> real list \<Rightarrow> real \<Rightarrow> real" where
  "linear_margin se xs y =
     1.96 * se * sqrt (1 + 1 / real (length xs) + (y - mean_of xs)\<^sup>2 / sum_sq_dev xs)"

text \<open>The transformed time coordinate \<open>log(1 + (year - min_year) + 1)\<close>.\<close>

definition log_coord :: "int \<Rightarrow> int \<Rightarrow> real" where
  "log_coord min_year y = ln (1 + real_of_int (y - min_year) + 1)"

section \<open>Properties of the scenario forecaster\<close>

lemma scenario_years_loop_append:
  "scenario_years_loop g ys v acc = acc @ scenario_years_loop g ys v []"
proof (induction ys arbitrary: v acc)
  case Nil
  show ?case by simp
next
  case (Cons y ys)
  show ?case
    using Cons.IH [of "py_min (v + g) (Fin 100)" "acc @ [py_min (v + g) (Fin 100)]"]
          Cons.IH [of "py_min (v + g) (Fin 100)" "[py_min (v + g) (Fin 100)]"]
    by (simp add: Let_def)
qed

lemma scenario_years_loop_Cons:
  "scenario_years_loop g (y # ys) v [] =
     py_min (v + g) (Fin 100) # scenario_years_loop g ys (py_min (v + g) (Fin 100)) []"
  using scenario_years_loop_append [of g ys "py_min (v + g) (Fin 100)" "[py_min (v + g) (Fin 100)]"]
  by (simp add: Let_def)

lemma length_scenario_years_loop:
  "length (scenario_years_loop g ys v []) = length ys"
  by (induction ys arbitrary: v) (simp_all add: scenario_years_loop_Cons del: scenario_years_loop.simps(2))

lemma scenario_years_loop_step:
  "i < length ys \<Longrightarrow>
   scenario_years_loop g ys v [] ! i =
     py_min ((if i = 0 then v else scenario_years_loop g ys v [] ! (i - 1)) + g) (Fin 100)"
proof (induction ys arbitrary: v i)
  case Nil
  then show ?case by simp
next
  case (Cons y ys)
  show ?case
  proof (cases i)
    case 0
    then show ?thesis by (simp add: scenario_years_loop_Cons del: scenario_years_loop.simps(2))
  next
    case (Suc j)
    with Cons.prems have "j < length ys" by simp
    from Cons.IH [OF this, of "py_min (v + g) (Fin 100)"] Suc show ?thesis
      by (cases j) (simp_all add: scenario_years_loop_Cons del: scenario_years_loop.simps(2))
  qed
qed

lemma scenario_items_loop_keys:
  "fst ` set (scenario_items_loop cv fy S r) = fst ` set r \<union> fst ` set S"
proof (induction S arbitrary: r)
  case Nil
  show ?case by simp
next
  case (Cons p S)
  obtain n' g' where p: "p = (n', g')" by (cases p)
  have "fst ` set (scenario_items_loop cv fy (p # S) r) =
          fst ` set (AList.update n' (ValueList (scenario_years_loop g' fy cv [])) r)
            \<union> fst ` set S"
    using Cons.IH p by simp
  also have "\<dots> = fst ` set r \<union> fst ` set (p # S)"
    using p by (simp add: dom_update Un_commute Un_left_commute insert_commute)
  finally show ?case .
qed

lemma scenario_items_loop_distinct:
  "distinct (map fst r) \<Longrightarrow> distinct (map fst (scenario_items_loop cv fy S r))"
  by (induction S arbitrary: r) (auto simp: distinct_update)

lemma scenario_items_loop_other:
  "k \<notin> fst ` set S \<Longrightarrow> map_of (scenario_items_loop cv fy S r) k = map_of r k"
  by (induction S arbitrary: r) (auto simp: update_conv')

lemma scenario_items_loop_entry:
  "distinct (map fst S) \<Longrightarrow> (name, g) \<in> set S \<Longrightarrow>
   map_of (scenario_items_loop cv fy S r) name =
     Some (ValueList (scenario_years_loop g fy cv []))"
proof (induction S arbitrary: r)
  case Nil
  then show ?case by simp
next
  case (Cons p S)
  obtain n' g' where p: "p = (n', g')" by (cases p)
  show ?case
  proof (cases "(name, g) = p")
    case True
    with Cons.prems p have "name \<notin> fst ` set S" by auto
    with True p show ?thesis
      by (simp add: scenario_items_loop_other update_conv')
  next
    case False
    with Cons.prems have "(name, g) \<in> set S" "distinct (map fst S)" by auto
    with Cons.IH p show ?thesis by simp
  qed
qed

lemma scenario_items_loop_length:
  assumes "distinct (map fst r)"
  shows "length (scenario_items_loop cv fy S r) = card (fst ` set r \<union> fst ` set S)"
proof -
  have "distinct (map fst (scenario_items_loop cv fy S r))"
    by (rule scenario_items_loop_distinct [OF assms])
  then have "card (set (map fst (scenario_items_loop cv fy S r)))
               = length (map fst (scenario_items_loop cv fy S r))"
    by (rule distinct_card)
  then show ?thesis by (simp add: scenario_items_loop_keys)
qed

lemma scenario_items_loop_some_entry:
  "name \<in> fst ` set S \<Longrightarrow>
   \<exists>g. (name, g) \<in> set S \<and>
       map_of (scenario_items_loop cv fy S r) name =
         Some (ValueList (scenario_years_loop g fy cv []))"
proof (induction S arbitrary: r)
  case Nil
  then show ?case by simp
next
  case (Cons p S)
  obtain n' g' where p: "p = (n', g')" by (cases p)
  show ?case
  proof (cases "name \<in> fst ` set S")
    case True
    from Cons.IH [OF True] p show ?thesis by auto
  next
    case False
    with Cons.prems p have "name = n'" by auto
    with False p show ?thesis
      by (auto simp: scenario_items_loop_other update_conv')
  qed
qed

lemma set_alist_update_subset:
  "set (AList.update k v al) \<subseteq> insert (k, v) (set al)"
  by (induction al) auto

lemma scenario_items_loop_all:
  assumes "\<forall>(k, v) \<in> set r. P v" and "\<forall>g. P (ValueList (scenario_years_loop g fy cv []))"
  shows "\<forall>(k, v) \<in> set (scenario_items_loop cv fy S r). P v"
  using assms(1)
proof (induction S arbitrary: r)
  case Nil
  then show ?case by simp
next
  case (Cons p S)
  obtain n' g' where p: "p = (n', g')" by (cases p)
  have "\<forall>(k, v) \<in> set (AList.update n' (ValueList (scenario_years_loop g' fy cv [])) r). P v"
    using Cons.prems assms(2)
      set_alist_update_subset [of n' "ValueList (scenario_years_loop g' fy cv [])" r]
    by fastforce
  from Cons.IH [OF this] p show ?case by simp
qed

text \<open>
  Claim C2. For a scenario dictionary (distinct names; the defaults when none is given) and
  \<open>current_year < target_year\<close>, the entry stored under each scenario name is a list with
  one value per year from \<open>current_year + 1\<close> through \<open>target_year\<close>, where each value is
  \<open>min(previous + growth, 100)\<close> and the first previous value is \<open>current_value\<close>. One step
  from 98 with growth 4 gives exactly 100, and from 49 with growth 2.5 over 2025 to 2027
  the values are 51.5, 54.0 and 56.5.
\<close>

theorem scenario_forecast_values:
  assumes S: "S = (case scenarios of None \<Rightarrow> default_scenarios | Some s \<Rightarrow> s)"
    and dist: "distinct (map fst S)"
    and lt: "current_year < target_year"
    and mem: "(name, g) \<in> set S"
  shows "(\<exists>vs. map_of (scenario_forecast current_value target_value target_year current_year
                        scenarios) name = Some (ValueList vs)
           \<and> length vs = nat (target_year - current_year)
           \<and> length vs = length [current_year + 1 .. target_year]
           \<and> (\<forall>i < length vs.
                 [current_year + 1 .. target_year] ! i = current_year + 1 + int i
               \<and> vs ! i = py_min ((if i = 0 then current_value else vs ! (i - 1)) + g) (Fin 100)))
       \<and> scenario_forecast (Fin 98) target_value 2025 2024 (Some [(''optimistic'', Fin 4)]) =
           [(''years'', YearList [2025]), (''optimistic'', ValueList [Fin 100])]
       \<and> scenario_forecast (Fin 49) target_value 2027 2024 (Some [(''base'', Fin 2.5)]) =
           [(''years'', YearList [2025, 2026, 2027]),
            (''base'', ValueList [Fin 51.5, Fin 54, Fin 56.5])]"
proof (intro conjI)
  let ?fy = "[current_year + 1 .. target_year]"
  let ?vs = "scenario_years_loop g ?fy current_value []"
  have len: "length ?vs = length ?fy" by (rule length_scenario_years_loop)
  have "map_of (scenario_forecast current_value target_value target_year current_year
                  scenarios) name = Some (ValueList ?vs)"
    unfolding scenario_forecast_def Let_def S [symmetric]
    by (rule scenario_items_loop_entry [OF dist mem])
  moreover have "length ?vs = nat (target_year - current_year)"
    using lt by (simp add: len)
  moreover have "\<forall>i < length ?vs. ?fy ! i = current_year + 1 + int i
      \<and> ?vs ! i = py_min ((if i = 0 then current_value else ?vs ! (i - 1)) + g) (Fin 100)"
    using scenario_years_loop_step [of _ ?fy g current_value] by (simp add: len)
  ultimately show "\<exists>vs. map_of (scenario_forecast current_value target_value target_year
                        current_year scenarios) name = Some (ValueList vs)
           \<and> length vs = nat (target_year - current_year)
           \<and> length vs = length [current_year + 1 .. target_year]
           \<and> (\<forall>i < length vs.
                 [current_year + 1 .. target_year] ! i = current_year + 1 + int i
               \<and> vs ! i = py_min ((if i = 0 then current_value else vs ! (i - 1)) + g) (Fin 100))"
    using len by blast
  show "scenario_forecast (Fin 98) target_value 2025 2024 (Some [(''optimistic'', Fin 4)]) =
           [(''years'', YearList [2025]), (''optimistic'', ValueList [Fin 100])]"
    by (simp add: scenario_forecast_def py_min_def Let_def)
  show "scenario_forecast (Fin 49) target_value 2027 2024 (Some [(''base'', Fin 2.5)]) =
           [(''years'', YearList [2025, 2026, 2027]),
            (''base'', ValueList [Fin 51.5, Fin 54, Fin 56.5])]"
    by (simp add: scenario_forecast_def py_min_def Let_def)
qed



theorem scenario_forecast_values_witness:
  "[(''base'', Fin 2.5)] = (case Some [(''base'', Fin 2.5)] of
                               None \<Rightarrow> default_scenarios | Some s \<Rightarrow> s)
   \<and> distinct (map fst [(''base'', Fin 2.5)])
   \<and> (2024::int) < 2027
   \<and> (''base'', Fin 2.5) \<in> set [(''base'', Fin 2.5)]
   \<and> (\<exists>vs. map_of (scenario_forecast (Fin 49) (Fin 60) 2027 2024 (Some [(''base'', Fin 2.5)]))
             ''base'' = Some (ValueList vs)
           \<and> length vs = nat (2027 - 2024)
           \<and> length vs = length [(2024::int) + 1 .. 2027]
           \<and> (\<forall>i < length vs.
                 [(2024::int) + 1 .. 2027] ! i = 2024 + 1 + int i
               \<and> vs ! i = py_min ((if i = 0 then Fin 49 else vs ! (i - 1)) + Fin 2.5) (Fin 100)))"
proof -
  have a: "[(''base'', Fin 2.5)] = (case Some [(''base'', Fin 2.5)] of
                               None \<Rightarrow> default_scenarios | Some s \<Rightarrow> s)" by simp
  have b: "distinct (map fst [(''base'', Fin 2.5)])" by simp
  have c: "(2024::int) < 2027" by simp
  have d: "(''base'', Fin 2.5) \<in> set [(''base'', Fin 2.5)]" by simp
  note t = scenario_forecast_values [OF a b c d, of "Fin 49" "Fin 60", THEN conjunct1]
  from a b c d t show ?thesis by (intro conjI)
qed

text \<open>
  Claim C7. When \<open>target_year \<le> current_year\<close> the list of forecast years is empty and so is
  the value list of every scenario: the entry under \<open>years\<close> is an empty list, every scenario
  name maps to the empty list, and no entry of the result is non-empty. The function has no
  failing operation, so the model returns the dictionary itself.
\<close>

theorem scenario_forecast_empty_horizon:
  assumes S: "S = (case scenarios of None \<Rightarrow> default_scenarios | Some s \<Rightarrow> s)"
    and le: "target_year \<le> current_year"
  shows "(\<exists>v. map_of (scenario_forecast current_value target_value target_year current_year
                        scenarios) ''years'' = Some v \<and> pylen v = 0)
       \<and> (''years'' \<notin> fst ` set S \<longrightarrow>
            map_of (scenario_forecast current_value target_value target_year current_year
                      scenarios) ''years'' = Some (YearList []))
       \<and> (\<forall>name \<in> fst ` set S.
             map_of (scenario_forecast current_value target_value target_year current_year
                       scenarios) name = Some (ValueList []))
       \<and> (\<forall>(k, v) \<in> set (scenario_forecast current_value target_value target_year current_year
                               scenarios). pylen v = 0)"
proof -
  let ?R = "scenario_forecast current_value target_value target_year current_year scenarios"
  have fy: "[current_year + 1 .. target_year] = []" using le by simp
  have R: "?R = scenario_items_loop current_value [] S [(''years'', YearList [])]"
    unfolding scenario_forecast_def Let_def S [symmetric] fy ..
  have names: "\<forall>name \<in> fst ` set S. map_of ?R name = Some (ValueList [])"
  proof
    fix name assume "name \<in> fst ` set S"
    from scenario_items_loop_some_entry [OF this, of current_value "[]" "[(''years'', YearList [])]"]
    show "map_of ?R name = Some (ValueList [])" by (auto simp: R)
  qed
  have other: "''years'' \<notin> fst ` set S \<longrightarrow> map_of ?R ''years'' = Some (YearList [])"
    by (simp add: R scenario_items_loop_other)
  have all: "\<forall>(k, v) \<in> set ?R. pylen v = 0"
    unfolding R by (rule scenario_items_loop_all) simp_all
  have "\<exists>v. map_of ?R ''years'' = Some v \<and> pylen v = 0"
  proof (cases "''years'' \<in> fst ` set S")
    case True
    with names show ?thesis by auto
  next
    case False
    with other show ?thesis by auto
  qed
  with other names all show ?thesis by blast
qed


theorem scenario_forecast_empty_horizon_witness:
  "default_scenarios = (case None of None \<Rightarrow> default_scenarios | Some s \<Rightarrow> s)
   \<and> (2024::int) \<le> 2024
   \<and> scenario_forecast (Fin 49) (Fin 60) 2024 2024 None =
       [(''years'', YearList []), (''optimistic'', ValueList []), (''base'', ValueList []),
        (''pessimistic'', ValueList [])]
   \<and> map_of (scenario_forecast (Fin 49) (Fin 60) 2024 2024 None) ''years'' = Some (YearList [])
   \<and> map_of (scenario_forecast (Fin 49) (Fin 60) 2024 2024 None) ''base'' = Some (ValueList [])"
proof -
  have a: "default_scenarios = (case None of None \<Rightarrow> default_scenarios | Some s \<Rightarrow> s)"
    by simp
  have b: "(2024::int) \<le> 2024" by simp
  have c: "scenario_forecast (Fin 49) (Fin 60) 2024 2024 None =
       [(''years'', YearList []), (''optimistic'', ValueList []), (''base'', ValueList []),
        (''pessimistic'', ValueList [])]"
    by (simp add: scenario_forecast_def default_scenarios_def)
  note t = scenario_forecast_empty_horizon [OF a b, of "Fin 49" "Fin 60"]
  have y: "''years'' \<notin> fst ` set default_scenarios"
    by (simp add: default_scenarios_def)
  have n: "''base'' \<in> fst ` set default_scenarios"
    by (simp add: default_scenarios_def)
  from t y have d: "map_of (scenario_forecast (Fin 49) (Fin 60) 2024 2024 None) ''years'' =
      Some (YearList [])" by blast
  from t n have e: "map_of (scenario_forecast (Fin 49) (Fin 60) 2024 2024 None) ''base'' =
      Some (ValueList [])" by blast
  from a b c d e show ?thesis by (intro conjI)
qed

text \<open>
  Claim C10. For a scenario dictionary with distinct names: when no scenario is called
  \<open>years\<close>, the result has one entry more than there are scenarios, the entry \<open>years\<close> is the
  list of forecast years, and every scenario's list is as long as that list; when a scenario
  is called \<open>years\<close>, its value list is what the result holds under \<open>years\<close>, the result has
  exactly as many entries as there are scenarios, and the list of forecast years is gone.
\<close>

theorem scenario_forecast_entries:
  assumes S: "S = (case scenarios of None \<Rightarrow> default_scenarios | Some s \<Rightarrow> s)"
    and dist: "distinct (map fst S)"
    and R: "R = scenario_forecast current_value target_value target_year current_year scenarios"
    and fy: "fy = [current_year + 1 .. target_year]"
  shows "(''years'' \<notin> fst ` set S \<longrightarrow>
            length R = length S + 1
          \<and> map_of R ''years'' = Some (YearList fy)
          \<and> (\<forall>(name, g) \<in> set S. \<exists>vs. map_of R name = Some (ValueList vs)
                                        \<and> length vs = length fy))
       \<and> (\<forall>g. (''years'', g) \<in> set S \<longrightarrow>
            map_of R ''years'' = Some (ValueList (scenario_years_loop g fy current_value []))
          \<and> length R = length S
          \<and> (\<forall>(k, v) \<in> set R. \<exists>vs. v = ValueList vs))"
proof -
  let ?r = "[(''years'', YearList fy)]"
  have Rdef: "R = scenario_items_loop current_value fy S ?r"
    unfolding R scenario_forecast_def Let_def S [symmetric] fy ..
  have len: "length R = card (insert ''years'' (fst ` set S))"
    unfolding Rdef by (simp add: scenario_items_loop_length)
  have cardS: "card (fst ` set S) = length S"
    using dist distinct_card [of "map fst S"] by simp
  have entry: "\<forall>(name, g) \<in> set S.
      map_of R name = Some (ValueList (scenario_years_loop g fy current_value []))"
    unfolding Rdef using scenario_items_loop_entry [OF dist] by blast
  have A: "''years'' \<notin> fst ` set S \<longrightarrow>
            length R = length S + 1
          \<and> map_of R ''years'' = Some (YearList fy)
          \<and> (\<forall>(name, g) \<in> set S. \<exists>vs. map_of R name = Some (ValueList vs)
                                        \<and> length vs = length fy)"
  proof
    assume no: "''years'' \<notin> fst ` set S"
    then have "length R = length S + 1" using len cardS by simp
    moreover have "map_of R ''years'' = Some (YearList fy)"
      unfolding Rdef using no by (simp add: scenario_items_loop_other)
    moreover have "\<forall>(name, g) \<in> set S. \<exists>vs. map_of R name = Some (ValueList vs)
                                        \<and> length vs = length fy"
      using entry by (auto simp: length_scenario_years_loop)
    ultimately show "length R = length S + 1
          \<and> map_of R ''years'' = Some (YearList fy)
          \<and> (\<forall>(name, g) \<in> set S. \<exists>vs. map_of R name = Some (ValueList vs)
                                        \<and> length vs = length fy)" by blast
  qed
  have B: "\<forall>g. (''years'', g) \<in> set S \<longrightarrow>
            map_of R ''years'' = Some (ValueList (scenario_years_loop g fy current_value []))
          \<and> length R = length S
          \<and> (\<forall>(k, v) \<in> set R. \<exists>vs. v = ValueList vs)"
  proof (intro allI impI)
    fix g assume mem: "(''years'', g) \<in> set S"
    then have yin: "''years'' \<in> fst ` set S" by force
    have 1: "map_of R ''years'' = Some (ValueList (scenario_years_loop g fy current_value []))"
      using entry mem by blast
    have 2: "length R = length S"
      using len cardS yin by (simp add: insert_absorb)
    have distR: "distinct (map fst R)"
      unfolding Rdef by (rule scenario_items_loop_distinct) simp
    have keys: "fst ` set R = insert ''years'' (fst ` set S)"
      unfolding Rdef by (simp add: scenario_items_loop_keys)
    have 3: "\<forall>(k, v) \<in> set R. \<exists>vs. v = ValueList vs"
    proof (clarify)
      fix k v assume kv: "(k, v) \<in> set R"
      then have "fst (k, v) \<in> fst ` set R" by (rule imageI)
      then have "k \<in> insert ''years'' (fst ` set S)" by (simp only: keys fst_conv)
      then have "k \<in> fst ` set S" using yin by (simp only: insert_absorb)
      then obtain g' where "(k, g') \<in> set S" by auto
      with entry have "map_of R k = Some (ValueList (scenario_years_loop g' fy current_value []))"
        by blast
      moreover from distR kv have "map_of R k = Some v" by simp
      ultimately show "\<exists>vs. v = ValueList vs" by simp
    qed
    from 1 2 3 show "map_of R ''years'' = Some (ValueList (scenario_years_loop g fy current_value []))
          \<and> length R = length S
          \<and> (\<forall>(k, v) \<in> set R. \<exists>vs. v = ValueList vs)" by blast
  qed
  from A B show ?thesis by blast
qed


theorem scenario_forecast_entries_witness:
  "[(''a'', Fin 4), (''years'', Fin 1)] =
     (case Some [(''a'', Fin 4), (''years'', Fin 1)] of
        None \<Rightarrow> default_scenarios | Some s \<Rightarrow> s)
   \<and> distinct (map fst [(''a'', Fin 4), (''years'', Fin 1)])
   \<and> (''years'', Fin 1) \<in> set [(''a'', Fin 4), (''years'', Fin 1)]
   \<and> scenario_forecast (Fin 98) (Fin 60) 2026 2024 (Some [(''a'', Fin 4), (''years'', Fin 1)]) =
       [(''years'', ValueList [Fin 99, Fin 100]), (''a'', ValueList [Fin 100, Fin 100])]
   \<and> length (scenario_forecast (Fin 98) (Fin 60) 2026 2024
               (Some [(''a'', Fin 4), (''years'', Fin 1)])) =
       length [(''a'', Fin 4), (''years'', Fin (1::real))]"
proof -
  let ?S = "[(''a'', Fin 4), (''years'', Fin 1)]"
  have a: "?S = (case Some ?S of None \<Rightarrow> default_scenarios | Some s \<Rightarrow> s)" by simp
  have b: "distinct (map fst ?S)" by simp
  have c: "(''years'', Fin 1) \<in> set ?S" by simp
  have d: "scenario_forecast (Fin 98) (Fin 60) 2026 2024 (Some ?S) =
       [(''years'', ValueList [Fin 99, Fin 100]), (''a'', ValueList [Fin 100, Fin 100])]"
    by (simp add: scenario_forecast_def py_min_def Let_def)
  from scenario_forecast_entries [OF a b refl refl, of "Fin 98" "Fin 60" 2026 2024] c
  have e: "length (scenario_forecast (Fin 98) (Fin 60) 2026 2024 (Some ?S)) = length ?S"
    by blast
  from a b c d e show ?thesis by (intro conjI)
qed

section \<open>Arithmetic of the trend fits\<close>

lemma ols_sum_min:
  fixes x y :: "nat \<Rightarrow> real"
  assumes n: "0 < n"
    and mx: "mx = (\<Sum>i<n. x i) / real n"
    and my: "my = (\<Sum>i<n. y i) / real n"
    and sxx: "sxx = (\<Sum>i<n. (x i - mx) * (x i - mx))" "sxx \<noteq> 0"
    and sxy: "sxy = (\<Sum>i<n. (x i - mx) * (y i - my))"
    and a: "a = sxy / sxx" and b: "b = my - a * mx"
  shows "(\<Sum>i<n. (y i - (a * x i + b))\<^sup>2) \<le> (\<Sum>i<n. (y i - (a' * x i + b'))\<^sup>2)"
proof -
  define r where "r i = y i - (a * x i + b)" for i
  define d where "d i = (a - a') * x i + (b - b')" for i
  have sx: "(\<Sum>i<n. x i) = real n * mx" and sy: "(\<Sum>i<n. y i) = real n * my"
    using n by (simp_all add: mx my)
  have r0: "(\<Sum>i<n. r i) = 0"
  proof -
    have "(\<Sum>i<n. r i) = (\<Sum>i<n. y i) - a * (\<Sum>i<n. x i) - real n * b"
      by (simp add: r_def sum_subtractf sum.distrib sum_distrib_left algebra_simps)
    also have "\<dots> = 0" by (simp add: sx sy b algebra_simps)
    finally show ?thesis .
  qed
  have rc: "(\<Sum>i<n. r i * (x i - mx)) = 0"
  proof -
    have "r i * (x i - mx) = (x i - mx) * (y i - my) - a * ((x i - mx) * (x i - mx))" for i
      by (simp add: r_def b algebra_simps)
    then have "(\<Sum>i<n. r i * (x i - mx)) = sxy - a * sxx"
      by (simp add: sum_subtractf sum_distrib_left sxy sxx(1))
    also have "\<dots> = 0" using sxx(2) by (simp add: a)
    finally show ?thesis .
  qed
  have rx: "(\<Sum>i<n. r i * x i) = 0"
  proof -
    have "r i * x i = r i * (x i - mx) + mx * r i" for i by (simp add: algebra_simps)
    then have "(\<Sum>i<n. r i * x i) = (\<Sum>i<n. r i * (x i - mx)) + mx * (\<Sum>i<n. r i)"
      by (simp add: sum.distrib sum_distrib_left)
    then show ?thesis by (simp add: r0 rc)
  qed
  have rd: "(\<Sum>i<n. r i * d i) = 0"
  proof -
    have "r i * d i = (a - a') * (r i * x i) + (b - b') * r i" for i
      by (simp add: d_def algebra_simps)
    then have "(\<Sum>i<n. r i * d i) = (a - a') * (\<Sum>i<n. r i * x i) + (b - b') * (\<Sum>i<n. r i)"
      by (simp add: sum.distrib sum_distrib_left)
    then show ?thesis by (simp add: r0 rx)
  qed
  have "y i - (a' * x i + b') = r i + d i" for i
    by (simp add: r_def d_def algebra_simps)
  then have "(\<Sum>i<n. (y i - (a' * x i + b'))\<^sup>2) = (\<Sum>i<n. (r i + d i)\<^sup>2)" by simp
  also have "\<dots> = (\<Sum>i<n. (r i)\<^sup>2) + 2 * (\<Sum>i<n. r i * d i) + (\<Sum>i<n. (d i)\<^sup>2)"
    by (simp add: power2_sum sum.distrib sum_distrib_left algebra_simps)
  also have "\<dots> = (\<Sum>i<n. (r i)\<^sup>2) + (\<Sum>i<n. (d i)\<^sup>2)" by (simp add: rd)
  finally have "(\<Sum>i<n. (y i - (a' * x i + b'))\<^sup>2) = (\<Sum>i<n. (r i)\<^sup>2) + (\<Sum>i<n. (d i)\<^sup>2)" .
  moreover have "0 \<le> (\<Sum>i<n. (d i)\<^sup>2)" by (simp add: sum_nonneg)
  ultimately show ?thesis by (simp add: r_def)
qed

lemma sum_list_map_nth:
  "sum_list (map f xs) = (\<Sum>i<length xs. f (xs ! i))"
proof -
  have "sum_list (map f xs) = (\<Sum>i = 0..<length (map f xs). map f xs ! i)"
    by (rule sum_list_sum_nth)
  also have "\<dots> = (\<Sum>i<length xs. f (xs ! i))"
    by (simp add: lessThan_atLeast0)
  finally show ?thesis .
qed

lemma sum_list_map2_nth:
  assumes "length xs = length ys"
  shows "sum_list (map2 f xs ys) = (\<Sum>i<length xs. f (xs ! i) (ys ! i))"
proof -
  have "sum_list (map2 f xs ys) = (\<Sum>i<length (zip xs ys). case_prod f (zip xs ys ! i))"
    by (rule sum_list_map_nth)
  also have "\<dots> = (\<Sum>i<length xs. f (xs ! i) (ys ! i))"
    using assms by simp
  finally show ?thesis .
qed


lemma Fin_minus [simp]: "Fin a - Fin b = Fin (a - b)"
  by (simp add: minus_npfloat_def)

lemma np_square_Fin [simp]: "np_square (Fin a) = Fin (a\<^sup>2)"
  by (simp add: np_square_def power2_eq_square)

lemma foldl_plus_Fin: "foldl (+) (Fin a) (map Fin xs) = Fin (a + sum_list xs)"
  by (induction xs arbitrary: a) (simp_all add: add.assoc)

lemma np_sum_Fin [simp]: "np_sum (map Fin xs) = Fin (sum_list xs)"
  by (simp add: np_sum_def foldl_plus_Fin)

lemma np_mean_Fin: "xs \<noteq> [] \<Longrightarrow> np_mean (map Fin xs) = Fin (mean_of xs)"
  by (simp add: np_mean_def mean_of_def)

lemma sum_sq_dev_nonneg: "0 \<le> sum_sq_dev xs"
  by (auto simp: sum_sq_dev_def intro!: sum_list_nonneg)

lemma np_std_Fin: "xs \<noteq> [] \<Longrightarrow> np_std (map Fin xs) = Fin (pop_std xs)"
proof -
  assume ne: "xs \<noteq> []"
  define zs where "zs = map (\<lambda>x. (x - mean_of xs)\<^sup>2) xs"
  have A: "map (\<lambda>x. np_square (x - np_mean (map Fin xs))) (map Fin xs) = map Fin zs"
    by (simp add: np_mean_Fin [OF ne] comp_def zs_def)
  have "zs \<noteq> []" using ne by (simp add: zs_def)
  then have B: "np_mean (map Fin zs) = Fin (mean_of zs)" by (rule np_mean_Fin)
  have C: "mean_of zs = sum_sq_dev xs / real (length xs)"
    unfolding zs_def sum_sq_dev_def by (simp add: mean_of_def [of "map _ _"])
  have D: "0 \<le> sum_sq_dev xs / real (length xs)"
    by (simp add: sum_sq_dev_nonneg)
  show ?thesis
    unfolding np_std_def A B C pop_std_def using D by simp
qed

lemma the_reals_Fin [simp]: "the_reals (map Fin xs) = Some xs"
  by (induction xs) simp_all

lemma lstsq_line_full_rank:
  "length xs = length ys \<Longrightarrow> sum_sq_dev xs \<noteq> 0 \<Longrightarrow>
   lstsq_line xs ys = Inr (ols_slope xs ys, ols_intercept xs ys)"
  by (simp add: lstsq_line_def Let_def sum_sq_dev_def ols_slope_def ols_intercept_def
        mean_of_def power2_eq_square)

lemma polyfit_full_rank:
  assumes "xs \<noteq> []" "length xs = length ys" "sum_sq_dev xs \<noteq> 0"
  shows "polyfit (map Fin xs) (map Fin ys) = Inr (Fin (ols_slope xs ys), Fin (ols_intercept xs ys))"
  using assms by (simp add: polyfit_def lstsq_line_full_rank)

lemma ols_minimal:
  assumes ne: "xs \<noteq> []" and len: "length xs = length ys" and sxx: "sum_sq_dev xs \<noteq> 0"
  shows "sq_error (ols_slope xs ys) (ols_intercept xs ys) xs ys \<le> sq_error a' b' xs ys"
proof -
  let ?n = "length xs"
  have n: "0 < ?n" using ne by simp
  have 1: "mean_of xs = (\<Sum>i<?n. xs ! i) / real ?n"
    using sum_list_map_nth [of "\<lambda>x. x" xs] by (simp add: mean_of_def)
  have 2: "mean_of ys = (\<Sum>i<?n. ys ! i) / real ?n"
    using sum_list_map_nth [of "\<lambda>x. x" ys] len by (simp add: mean_of_def)
  have 3: "sum_sq_dev xs = (\<Sum>i<?n. (xs ! i - mean_of xs) * (xs ! i - mean_of xs))"
    by (simp add: sum_sq_dev_def sum_list_map_nth power2_eq_square)
  have 4: "sum_list (map2 (\<lambda>x y. (x - mean_of xs) * (y - mean_of ys)) xs ys) =
             (\<Sum>i<?n. (xs ! i - mean_of xs) * (ys ! i - mean_of ys))"
    by (rule sum_list_map2_nth [OF len])
  have 5: "ols_slope xs ys =
      sum_list (map2 (\<lambda>x y. (x - mean_of xs) * (y - mean_of ys)) xs ys) / sum_sq_dev xs"
    by (simp add: ols_slope_def)
  have 6: "ols_intercept xs ys = mean_of ys - ols_slope xs ys * mean_of xs"
    by (simp add: ols_intercept_def)
  have "(\<Sum>i<?n. (ys ! i - (ols_slope xs ys * xs ! i + ols_intercept xs ys))\<^sup>2)
          \<le> (\<Sum>i<?n. (ys ! i - (a' * xs ! i + b'))\<^sup>2)"
    by (rule ols_sum_min [OF n 1 2 3 sxx 4 5 6])
  then show ?thesis
    by (simp add: sq_error_def sum_list_map2_nth [OF len])
qed

lemma sum_sq_dev_zero_all_equal:
  assumes "sum_sq_dev xs = 0" "a \<in> set xs"
  shows "a = mean_of xs"
proof -
  have "\<forall>z \<in> set (map (\<lambda>x. (x - mean_of xs)\<^sup>2) xs). z = 0"
    using assms(1) unfolding sum_sq_dev_def
    by (subst (asm) sum_list_nonneg_eq_0_iff) auto
  with assms(2) have "(a - mean_of xs)\<^sup>2 = 0" by simp
  then show ?thesis by simp
qed

lemma sum_sq_dev_distinct:
  assumes "a \<in> set xs" "b \<in> set xs" "a \<noteq> b"
  shows "sum_sq_dev xs \<noteq> 0"
  using assms sum_sq_dev_zero_all_equal [of xs a] sum_sq_dev_zero_all_equal [of xs b] by auto

lemma sum_sq_dev_pos:
  "sum_sq_dev xs \<noteq> 0 \<Longrightarrow> 0 < sum_sq_dev xs"
  using sum_sq_dev_nonneg [of xs] by simp

lemma map2_map_same: "map2 f (map g xs) (map h xs) = map (\<lambda>x. f (g x) (h x)) xs"
  by (induction xs) simp_all

lemma map2_Fin_residuals:
  "length xs = length ys \<Longrightarrow>
   map2 (-) (map Fin ys) (map (\<lambda>x. Fin a * Fin x + Fin b) xs) = map Fin (residuals_of a b xs ys)"
proof (induction xs arbitrary: ys)
  case Nil
  then show ?case by (simp add: residuals_of_def)
next
  case (Cons x xs)
  then obtain y ys' where "ys = y # ys'" by (cases ys) auto
  with Cons show ?case by (simp add: residuals_of_def)
qed

lemma length_residuals_of: "length xs = length ys \<Longrightarrow> length (residuals_of a b xs ys) = length xs"
  by (simp add: residuals_of_def)

lemma linear_margin_arg_nonneg:
  "xs \<noteq> [] \<Longrightarrow> 0 \<le> 1 + 1 / real (length xs) + (y - mean_of xs)\<^sup>2 / sum_sq_dev xs"
  by (simp add: sum_sq_dev_nonneg add_nonneg_nonneg)

lemma linear_trend_forecast_after_fit:
  assumes len: "length values = length years" and ne: "years \<noteq> []"
    and fit: "polyfit (map Fin (map real_of_int years)) (map Fin values) = Inr (Fin s, Fin c)"
  defines "xs \<equiv> map real_of_int years"
  defines "se \<equiv> pop_std (residuals_of s c xs values)"
  defines "mg \<equiv> \<lambda>y. Fin (1.96 * se) *
                  np_sqrt (Fin (1 + 1 / real (length years)) +
                           Fin ((real_of_int y - mean_of xs)\<^sup>2) / Fin (sum_sq_dev xs))"
  shows "linear_trend_forecast years values forecast_years =
     Inr (map (\<lambda>y. Fin (s * real_of_int y + c)) forecast_years,
          map (\<lambda>y. Fin (s * real_of_int y + c) - mg y) forecast_years,
          map (\<lambda>y. Fin (s * real_of_int y + c) + mg y) forecast_years)"
proof -
  have xs_ne: "xs \<noteq> []" and xs_len: "length xs = length values" "length xs = length years"
    using ne len by (simp_all add: xs_def)
  have yrs: "map of_year years = map Fin xs"
    by (simp add: xs_def of_year_def comp_def)
  have fit': "polyfit (map of_year years) (map Fin values) = Inr (Fin s, Fin c)"
    unfolding yrs xs_def by (rule fit)
  have fitted: "map (\<lambda>y. Fin s * of_year y + Fin c) years = map (\<lambda>x. Fin s * Fin x + Fin c) xs"
    by (simp add: xs_def of_year_def comp_def)
  have res: "map2 (-) (map Fin values) (map (\<lambda>y. Fin s * of_year y + Fin c) years) =
               map Fin (residuals_of s c xs values)"
    unfolding fitted by (rule map2_Fin_residuals [OF xs_len(1)])
  have "residuals_of s c xs values \<noteq> []"
    using length_residuals_of [OF xs_len(1), of s c] xs_ne by auto
  then have std: "np_std (map Fin (residuals_of s c xs values)) = Fin se"
    unfolding se_def by (rule np_std_Fin)
  have mean: "np_mean (map of_year years) = Fin (mean_of xs)"
    unfolding yrs by (rule np_mean_Fin [OF xs_ne])
  have ssq: "np_sum (map (\<lambda>x. np_square (of_year x - Fin (mean_of xs))) years) = Fin (sum_sq_dev xs)"
  proof -
    have "map (\<lambda>x. np_square (of_year x - Fin (mean_of xs))) years =
            map Fin (map (\<lambda>x. (x - mean_of xs)\<^sup>2) xs)"
      by (simp add: xs_def of_year_def comp_def)
    then show ?thesis unfolding sum_sq_dev_def by (simp only: np_sum_Fin)
  qed
  have margin: "Fin 1.96 * Fin se *
                  np_sqrt (Fin 1 + Fin (1 / real (length years)) +
                           np_square (of_year y - Fin (mean_of xs)) / Fin (sum_sq_dev xs)) =
                mg y" for y
    by (simp add: of_year_def mg_def)
  have fc: "Fin s * of_year y + Fin c = Fin (s * real_of_int y + c)" for y
    by (simp add: of_year_def)
  have l0: "(length years = 0) = False" using ne by simp
  have "linear_trend_forecast years values forecast_years =
     Inr (map (\<lambda>y. Fin s * of_year y + Fin c) forecast_years,
          map2 (-) (map (\<lambda>y. Fin s * of_year y + Fin c) forecast_years) (map mg forecast_years),
          map2 (+) (map (\<lambda>y. Fin s * of_year y + Fin c) forecast_years) (map mg forecast_years))"
    unfolding linear_trend_forecast_def fit'
    by (simp only: sum.case prod.case Let_def res std mean ssq margin l0 if_False)
  then show ?thesis by (simp add: map2_map_same fc)
qed

lemma linear_trend_forecast_valid:
  assumes len: "length values = length years" and ne: "years \<noteq> []"
    and sxx: "sum_sq_dev (map real_of_int years) \<noteq> 0"
  defines "xs \<equiv> map real_of_int years"
  defines "s \<equiv> ols_slope xs values" and "c \<equiv> ols_intercept xs values"
  defines "se \<equiv> pop_std (residuals_of s c xs values)"
  shows "linear_trend_forecast years values forecast_years =
     Inr (map (\<lambda>y. Fin (s * real_of_int y + c)) forecast_years,
          map (\<lambda>y. Fin (s * real_of_int y + c - linear_margin se xs (real_of_int y))) forecast_years,
          map (\<lambda>y. Fin (s * real_of_int y + c + linear_margin se xs (real_of_int y))) forecast_years)"
proof -
  have xs_ne: "xs \<noteq> []" and xs_len: "length xs = length values" "length xs = length years"
    using ne len by (simp_all add: xs_def)
  have fit: "polyfit (map Fin (map real_of_int years)) (map Fin values) = Inr (Fin s, Fin c)"
    unfolding s_def c_def xs_def using xs_ne xs_len(1) sxx
    by (intro polyfit_full_rank) (simp_all add: xs_def)
  have sxx': "sum_sq_dev xs \<noteq> 0" using sxx by (simp add: xs_def)
  have margin: "Fin (1.96 * se) *
                  np_sqrt (Fin (1 + 1 / real (length years)) +
                           Fin ((real_of_int y - mean_of xs)\<^sup>2) / Fin (sum_sq_dev xs)) =
                Fin (linear_margin se xs (real_of_int y))" for y
    using sxx' linear_margin_arg_nonneg [OF xs_ne, of "real_of_int y"]
    by (simp add: linear_margin_def xs_len(2))
  have "linear_trend_forecast years values forecast_years =
     Inr (map (\<lambda>y. Fin (s * real_of_int y + c)) forecast_years,
          map (\<lambda>y. Fin (s * real_of_int y + c) - Fin (linear_margin se xs (real_of_int y)))
            forecast_years,
          map (\<lambda>y. Fin (s * real_of_int y + c) + Fin (linear_margin se xs (real_of_int y)))
            forecast_years)"
    using linear_trend_forecast_after_fit [OF len ne fit, of forecast_years]
    unfolding xs_def [symmetric] se_def [symmetric] by (simp only: margin)
  then show ?thesis by (simp only: Fin_minus plus_npfloat.simps)
qed

lemma np_min_nonempty: "years \<noteq> [] \<Longrightarrow> np_min years = Inr (Min (set years))"
proof (cases years)
  case Nil
  assume "years \<noteq> []"
  with Nil show ?thesis by simp
next
  case (Cons x rest)
  show ?thesis unfolding np_min_def Cons by (simp only: list.case Min.set_eq_fold)
qed

lemma np_log1p_year:
  "base \<le> y + 1 \<Longrightarrow> np_log1p (of_year (y - base + 1)) = Fin (log_coord base y)"
  by (simp add: of_year_def log_coord_def algebra_simps)

lemma log_years_Fin:
  assumes "years \<noteq> []"
  shows "map (\<lambda>y. np_log1p (of_year (y - Min (set years) + 1))) years =
         map Fin (map (log_coord (Min (set years))) years)"
proof -
  have "np_log1p (of_year (y - Min (set years) + 1)) = Fin (log_coord (Min (set years)) y)"
    if "y \<in> set years" for y
  proof -
    have "Min (set years) \<le> y" using that by simp
    then show ?thesis by (intro np_log1p_year) simp
  qed
  then show ?thesis by simp
qed

lemma log_coord_inj:
  assumes "base \<le> a" "base \<le> b" "log_coord base a = log_coord base b"
  shows "a = b"
proof -
  have "0 < 1 + real_of_int (a - base) + 1" "0 < 1 + real_of_int (b - base) + 1"
    using assms(1,2) by simp_all
  with assms(3) have "1 + real_of_int (a - base) + 1 = 1 + real_of_int (b - base) + 1"
    unfolding log_coord_def by (simp only: ln_inj_iff)
  then show ?thesis by simp
qed

lemma log_coords_sum_sq_dev:
  assumes "a \<in> set years" "b \<in> set years" "a \<noteq> b"
  shows "sum_sq_dev (map (log_coord (Min (set years))) years) \<noteq> 0"
proof -
  let ?base = "Min (set years)"
  have "?base \<le> a" "?base \<le> b" using assms(1,2) by simp_all
  with assms(3) have "log_coord ?base a \<noteq> log_coord ?base b"
    using log_coord_inj by blast
  moreover have "log_coord ?base a \<in> set (map (log_coord ?base) years)"
    "log_coord ?base b \<in> set (map (log_coord ?base) years)"
    using assms(1,2) by simp_all
  ultimately show ?thesis by (rule sum_sq_dev_distinct [rotated 2])
qed

lemma map2_Fin_residuals':
  "length xs = length ys \<Longrightarrow>
   map2 (-) (map Fin ys) (map (\<lambda>l. Fin a * l + Fin b) (map Fin xs)) =
     map Fin (residuals_of a b xs ys)"
  using map2_Fin_residuals [of xs ys a b] by (simp add: comp_def)

lemma log_trend_forecast_after_fit:
  assumes ne: "years \<noteq> []" and len: "length values = length years"
    and fit: "polyfit (map Fin (map (log_coord (Min (set years))) years)) (map Fin values) =
                Inr (Fin s, Fin c)"
  defines "ts \<equiv> map (log_coord (Min (set years))) years"
  defines "se \<equiv> pop_std (residuals_of s c ts values)"
  defines "fc \<equiv> \<lambda>y. Fin s * np_log1p (of_year (y - Min (set years) + 1)) + Fin c"
  shows "log_trend_forecast years values forecast_years =
     Inr (map fc forecast_years,
          map (\<lambda>y. fc y - Fin (1.96 * se)) forecast_years,
          map (\<lambda>y. fc y + Fin (1.96 * se)) forecast_years)"
proof -
  have ts_len: "length ts = length values" using len by (simp add: ts_def)
  have ly: "map (\<lambda>y. np_log1p (of_year (y - Min (set years) + 1))) years = map Fin ts"
    unfolding ts_def by (rule log_years_Fin [OF ne])
  have res: "map2 (-) (map Fin values) (map (\<lambda>l. Fin s * l + Fin c) (map Fin ts)) =
               map Fin (residuals_of s c ts values)"
    by (rule map2_Fin_residuals' [OF ts_len])
  have "residuals_of s c ts values \<noteq> []"
    using length_residuals_of [OF ts_len, of s c] ne by (auto simp: ts_def)
  then have std: "np_std (map Fin (residuals_of s c ts values)) = Fin se"
    unfolding se_def by (rule np_std_Fin)
  have m: "Fin 1.96 * Fin se = Fin (1.96 * se)" by simp
  have fit': "polyfit (map Fin ts) (map Fin values) = Inr (Fin s, Fin c)"
    using fit by (simp only: ts_def)
  have "log_trend_forecast years values forecast_years =
     Inr (map (\<lambda>l. Fin s * l + Fin c)
            (map (\<lambda>y. np_log1p (of_year (y - Min (set years) + 1))) forecast_years),
          map (\<lambda>f. f - Fin (1.96 * se))
            (map (\<lambda>l. Fin s * l + Fin c)
               (map (\<lambda>y. np_log1p (of_year (y - Min (set years) + 1))) forecast_years)),
          map (\<lambda>f. f + Fin (1.96 * se))
            (map (\<lambda>l. Fin s * l + Fin c)
               (map (\<lambda>y. np_log1p (of_year (y - Min (set years) + 1))) forecast_years)))"
    unfolding log_trend_forecast_def np_min_nonempty [OF ne]
    by (simp only: sum.case prod.case Let_def ly fit' res std m)
  then show ?thesis by (simp add: fc_def comp_def)
qed

lemma log_trend_forecast_valid:
  assumes len: "length values = length years"
    and ab: "a \<in> set years" "b \<in> set years" "a \<noteq> b"
  defines "ts \<equiv> map (log_coord (Min (set years))) years"
  defines "s \<equiv> ols_slope ts values" and "c \<equiv> ols_intercept ts values"
  defines "se \<equiv> pop_std (residuals_of s c ts values)"
  defines "fc \<equiv> \<lambda>y. Fin s * np_log1p (of_year (y - Min (set years) + 1)) + Fin c"
  shows "log_trend_forecast years values forecast_years =
     Inr (map fc forecast_years,
          map (\<lambda>y. fc y - Fin (1.96 * se)) forecast_years,
          map (\<lambda>y. fc y + Fin (1.96 * se)) forecast_years)"
proof -
  have ne: "years \<noteq> []" using ab(1) by auto
  have "polyfit (map Fin ts) (map Fin values) = Inr (Fin s, Fin c)"
    unfolding s_def c_def
  proof (rule polyfit_full_rank)
    show "ts \<noteq> []" using ne by (simp add: ts_def)
    show "length ts = length values" using len by (simp add: ts_def)
    show "sum_sq_dev ts \<noteq> 0" unfolding ts_def by (rule log_coords_sum_sq_dev [OF ab])
  qed
  then have fit: "polyfit (map Fin (map (log_coord (Min (set years))) years)) (map Fin values) =
                Inr (Fin s, Fin c)" by (simp only: ts_def)
  show ?thesis
    unfolding fc_def se_def ts_def
    by (rule log_trend_forecast_after_fit [OF ne len fit])
qed



lemma all_same_replicate: "\<forall>x \<in> set xs. x = x0 \<Longrightarrow> xs = replicate (length xs) x0"
  by (induction xs) simp_all

lemma mean_of_all_same:
  assumes "xs \<noteq> []" "\<forall>x \<in> set xs. x = x0"
  shows "mean_of xs = x0"
proof -
  have "xs = replicate (length xs) x0" by (rule all_same_replicate [OF assms(2)])
  moreover have "sum_list (replicate (length xs) x0) = real (length xs) * x0"
    by (simp add: sum_list_replicate)
  ultimately have "sum_list xs = real (length xs) * x0" by simp
  then show ?thesis using assms(1) by (simp add: mean_of_def)
qed

lemma sum_sq_dev_all_same:
  assumes "xs \<noteq> []" "\<forall>x \<in> set xs. x = x0"
  shows "sum_sq_dev xs = 0"
proof -
  have "\<forall>z \<in> set (map (\<lambda>x. (x - mean_of xs)\<^sup>2) xs). z = 0"
    using assms(2) mean_of_all_same [OF assms] by simp
  then show ?thesis unfolding sum_sq_dev_def
    by (subst sum_list_nonneg_eq_0_iff) auto
qed

lemma lstsq_line_degenerate:
  assumes ne: "xs \<noteq> []" and len: "length xs = length ys"
    and same: "\<forall>x \<in> set xs. x = x0" and nz: "x0 \<noteq> 0"
  shows "lstsq_line xs ys = Inr (mean_of ys / (2 * x0), mean_of ys / 2)"
proof -
  have m: "sum_list xs / real (length xs) = x0"
    using mean_of_all_same [OF ne same] by (simp add: mean_of_def)
  have "sum_list (map (\<lambda>x. (x - x0) * (x - x0)) xs) = 0"
    using sum_sq_dev_all_same [OF ne same] mean_of_all_same [OF ne same]
    by (simp add: sum_sq_dev_def power2_eq_square)
  then show ?thesis
    unfolding lstsq_line_def Let_def m using nz len by (simp add: mean_of_def)
qed

lemma polyfit_degenerate:
  assumes ne: "xs \<noteq> []" and len: "length xs = length ys"
    and same: "\<forall>x \<in> set xs. x = x0" and nz: "x0 \<noteq> 0"
  shows "polyfit (map Fin xs) (map Fin ys) = Inr (Fin (mean_of ys / (2 * x0)), Fin (mean_of ys / 2))"
  using ne len by (simp add: polyfit_def lstsq_line_degenerate [OF ne len same nz])

lemma not_fin_div_zero: "\<not> is_fin (Fin q / Fin 0)"
  by simp

lemma not_fin_add: "\<not> is_fin m \<Longrightarrow> \<not> is_fin (Fin a + m)"
  by (cases m) simp_all

lemma not_fin_sqrt: "\<not> is_fin m \<Longrightarrow> \<not> is_fin (np_sqrt m)"
  by (cases m) simp_all

lemma not_fin_mult: "\<not> is_fin m \<Longrightarrow> \<not> is_fin (Fin a * m)"
  by (cases m) simp_all

lemma not_fin_sub: "\<not> is_fin m \<Longrightarrow> \<not> is_fin (Fin a - m)"
  by (cases m) (simp_all add: minus_npfloat_def)

lemma linear_trend_forecast_degenerate:
  assumes ne: "years \<noteq> []" and len: "length values = length years"
    and same: "\<forall>y \<in> set years. y = y0" and nz: "y0 \<noteq> 0"
  shows "\<exists>mg. (\<forall>y. \<not> is_fin (mg y)) \<and>
     linear_trend_forecast years values forecast_years =
       Inr (map (\<lambda>y. Fin (mean_of values / (2 * real_of_int y0) * real_of_int y
                           + mean_of values / 2)) forecast_years,
            map (\<lambda>y. Fin (mean_of values / (2 * real_of_int y0) * real_of_int y
                           + mean_of values / 2) - mg y) forecast_years,
            map (\<lambda>y. Fin (mean_of values / (2 * real_of_int y0) * real_of_int y
                           + mean_of values / 2) + mg y) forecast_years)"
proof -
  let ?xs = "map real_of_int years"
  have xne: "?xs \<noteq> []" and xlen: "length ?xs = length values" using ne len by simp_all
  have xsame: "\<forall>x \<in> set ?xs. x = real_of_int y0" using same by simp
  have xnz: "real_of_int y0 \<noteq> 0" using nz by simp
  note fit = polyfit_degenerate [OF xne xlen xsame xnz]
  note af = linear_trend_forecast_after_fit [OF len ne fit, of forecast_years]
  have z: "sum_sq_dev ?xs = 0" by (rule sum_sq_dev_all_same [OF xne xsame])
  define mg where "mg = (\<lambda>y. Fin (1.96 * pop_std (residuals_of (mean_of values / (2 * real_of_int y0))
                                       (mean_of values / 2) ?xs values)) *
                  np_sqrt (Fin (1 + 1 / real (length years)) +
                           Fin ((real_of_int y - mean_of ?xs)\<^sup>2) / Fin (sum_sq_dev ?xs)))"
  have nf: "\<forall>y. \<not> is_fin (mg y)"
    unfolding mg_def z
    by (intro allI not_fin_mult not_fin_sqrt not_fin_add not_fin_div_zero)
  have "linear_trend_forecast years values forecast_years =
       Inr (map (\<lambda>y. Fin (mean_of values / (2 * real_of_int y0) * real_of_int y
                           + mean_of values / 2)) forecast_years,
            map (\<lambda>y. Fin (mean_of values / (2 * real_of_int y0) * real_of_int y
                           + mean_of values / 2) - mg y) forecast_years,
            map (\<lambda>y. Fin (mean_of values / (2 * real_of_int y0) * real_of_int y
                           + mean_of values / 2) + mg y) forecast_years)"
    unfolding mg_def by (rule af)
  with nf show ?thesis by blast
qed

lemma log_coord_same: "log_coord y y = ln 2"
  by (simp add: log_coord_def)

lemma log_trend_forecast_degenerate:
  assumes ne: "years \<noteq> []" and len: "length values = length years"
    and same: "\<forall>y \<in> set years. y = y0"
  shows "\<exists>f l u. log_trend_forecast years values forecast_years = Inr (f, l, u)
           \<and> length f = length forecast_years \<and> length l = length forecast_years
           \<and> length u = length forecast_years"
proof -
  have y0: "y0 \<in> set years" using ne same by (cases years) auto
  have "set years = {y0}"
  proof
    show "set years \<subseteq> {y0}" using same by blast
    show "{y0} \<subseteq> set years" using y0 by blast
  qed
  then have min: "Min (set years) = y0" by simp
  let ?ts = "map (log_coord (Min (set years))) years"
  have tne: "?ts \<noteq> []" and tlen: "length ?ts = length values" using ne len by simp_all
  have tsame: "\<forall>x \<in> set ?ts. x = ln 2"
  proof
    fix x assume "x \<in> set ?ts"
    then obtain y where "y \<in> set years" "x = log_coord (Min (set years)) y" by auto
    moreover from this same have "y = y0" by blast
    ultimately show "x = ln 2" by (simp only: min log_coord_same)
  qed
  have tnz: "ln (2 :: real) \<noteq> 0" by simp
  note fit = polyfit_degenerate [OF tne tlen tsame tnz]
  note af = log_trend_forecast_after_fit [OF ne len fit, of forecast_years]
  show ?thesis unfolding af by simp
qed

lemma linear_trend_forecast_returns:
  assumes ne: "years \<noteq> []" and len: "length values = length years"
    and nz: "0 \<notin> set years"
  shows "\<exists>f l u. linear_trend_forecast years values forecast_years = Inr (f, l, u)"
proof (cases "\<forall>y \<in> set years. y = hd years")
  case True
  have "hd years \<in> set years" using ne by simp
  with nz have "hd years \<noteq> 0" by metis
  from linear_trend_forecast_degenerate [OF ne len True this, of forecast_years]
  show ?thesis by blast
next
  case False
  then obtain a where a: "a \<in> set years" "a \<noteq> hd years" by blast
  have b: "hd years \<in> set years" using ne by simp
  have "real_of_int a \<in> set (map real_of_int years)"
    "real_of_int (hd years) \<in> set (map real_of_int years)"
    "real_of_int a \<noteq> real_of_int (hd years)"
    using a b by simp_all
  then have "sum_sq_dev (map real_of_int years) \<noteq> 0" by (rule sum_sq_dev_distinct)
  from linear_trend_forecast_valid [OF len ne this, of forecast_years]
  show ?thesis by blast
qed

lemma log_trend_forecast_returns:
  assumes ne: "years \<noteq> []" and len: "length values = length years"
  shows "\<exists>f l u. log_trend_forecast years values forecast_years = Inr (f, l, u)"
proof (cases "\<forall>y \<in> set years. y = hd years")
  case True
  from log_trend_forecast_degenerate [OF ne len True, of forecast_years]
  show ?thesis by blast
next
  case False
  then obtain a where a: "a \<in> set years" "a \<noteq> hd years" by blast
  have b: "hd years \<in> set years" using ne by simp
  from log_trend_forecast_valid [OF len a(1) b a(2), of forecast_years]
  show ?thesis by blast
qed

lemma linear_trend_forecast_empty: "linear_trend_forecast [] values forecast_years = Inl TypeError"
  by (simp add: linear_trend_forecast_def polyfit_def)

lemma indicator_entry_empty:
  "indicator_entry name code target [] values forecast_years = Inl TypeError"
  by (simp add: indicator_entry_def linear_trend_forecast_empty)

lemma indicator_entry_returns:
  assumes ne: "years \<noteq> []" and len: "length values = length years"
    and nz: "0 \<notin> set years"
  shows "\<exists>entry f l u. indicator_entry name code target years values forecast_years = Inr entry
           \<and> linear_trend_forecast years values forecast_years = Inr (f, l, u)
           \<and> map_of entry ''code'' = Some (PStr code)
           \<and> map_of entry ''linear_forecast'' = Some (PFloatList f)
           \<and> map_of entry ''linear_lower'' = Some (PFloatList l)
           \<and> map_of entry ''linear_upper'' = Some (PFloatList u)"
proof -
  from linear_trend_forecast_returns [OF ne len nz, of forecast_years]
  obtain f l u where lin: "linear_trend_forecast years values forecast_years = Inr (f, l, u)"
    by blast
  from log_trend_forecast_returns [OF ne len, of forecast_years]
  obtain g gl gu where lg: "log_trend_forecast years values forecast_years = Inr (g, gl, gu)"
    by blast
  have vne: "values \<noteq> []" using ne len by auto
  show ?thesis
    unfolding indicator_entry_def lin lg using ne vne by simp
qed

lemma length_select_indicator:
  "length (select_indicator code (filter P df)) =
     length (filter (\<lambda>r. P r \<and> indicator_code r = code) df)"
  by (simp add: select_indicator_def conj_commute)

lemma set_select_indicator:
  "set (select_indicator code (filter P df)) = {r \<in> set df. P r \<and> indicator_code r = code}"
  by (auto simp: select_indicator_def)

section \<open>Properties of the growth-rate analyzer\<close>

lemma growth_loop_rows:
  "\<forall>i \<in> set is. i < length values \<Longrightarrow>
   growth_loop years values is data = Inr (data @ map (growth_row_at years values) is)"
proof (induction "is" arbitrary: data)
  case Nil
  show ?case by simp
next
  case (Cons i rest)
  then have "i < length values" "\<forall>j \<in> set rest. j < length values" by simp_all
  with Cons.IH [of "data @ [growth_row_at years values i]"] show ?case
    by (simp add: Let_def growth_row_at_def)
qed

lemma int64_wrap_id: "0 \<le> x \<Longrightarrow> x < 2 ^ 63 \<Longrightarrow> int64_wrap x = x"
  by (simp add: int64_wrap_def)

text \<open>
  Where the difference of two years does not fit into 64 bits the span wraps around: for
  the years \<open>-2^63\<close> and \<open>1\<close> the row holds a negative span.
\<close>

lemma growth_span_wraps:
  "calculate_growth_rates [- 9223372036854775808, 1] [0, 1] =
     Inr [\<lparr>period_start = - 9223372036854775808, period_end = 1,
           period_years = - 9223372036854775807, start_value = 0, end_value = 1,
           total_growth_pp = 1, annual_growth_pp = Fin (- (1 / 9223372036854775807))\<rparr>]"
  by (simp add: calculate_growth_rates_def int64_wrap_def of_year_def Let_def)

text \<open>
  Claim C6. For \<open>n \<ge> 2\<close> pairs with strictly increasing years, each span of two
  consecutive years fitting into a 64-bit signed integer, the analyzer returns \<open>n - 1\<close>
  rows, the \<open>k\<close>-th for the pair of points \<open>k\<close> and \<open>k + 1\<close>: its span is the difference of
  the two years (positive), its total growth the difference of the two values, and its
  annual growth the total growth divided by the span.
\<close>

theorem calculate_growth_rates_rows:
  assumes "length values = length years" and "2 \<le> length years"
    and "sorted_wrt (<) years"
    and "\<forall>k. Suc k < length years \<longrightarrow> years ! Suc k - years ! k < 2 ^ 63"
  shows "\<exists>rows. calculate_growth_rates years values = Inr rows
           \<and> length rows = length years - 1
           \<and> (\<forall>k < length rows.
                 period_start (rows ! k) = years ! k
               \<and> period_end (rows ! k) = years ! (k + 1)
               \<and> start_value (rows ! k) = values ! k
               \<and> end_value (rows ! k) = values ! (k + 1)
               \<and> period_years (rows ! k) = years ! (k + 1) - years ! k
               \<and> total_growth_pp (rows ! k) = values ! (k + 1) - values ! k
               \<and> 0 < period_years (rows ! k)
               \<and> annual_growth_pp (rows ! k) =
                   Fin (total_growth_pp (rows ! k) / real_of_int (period_years (rows ! k))))"
proof -
  let ?rows = "map (growth_row_at years values) [1 ..< length years]"
  have eq: "calculate_growth_rates years values = Inr ?rows"
    unfolding calculate_growth_rates_def
    using growth_loop_rows [of "[1 ..< length years]" "values" years "[]"] assms(1) by simp
  have len: "length ?rows = length years - 1" by simp
  have "\<forall>k < length ?rows.
                 period_start (?rows ! k) = years ! k
               \<and> period_end (?rows ! k) = years ! (k + 1)
               \<and> start_value (?rows ! k) = values ! k
               \<and> end_value (?rows ! k) = values ! (k + 1)
               \<and> period_years (?rows ! k) = years ! (k + 1) - years ! k
               \<and> total_growth_pp (?rows ! k) = values ! (k + 1) - values ! k
               \<and> 0 < period_years (?rows ! k)
               \<and> annual_growth_pp (?rows ! k) =
                   Fin (total_growth_pp (?rows ! k) / real_of_int (period_years (?rows ! k)))"
  proof (intro allI impI)
    fix k assume k: "k < length ?rows"
    then have k1: "Suc k < length years" by simp
    have lt: "years ! k < years ! Suc k"
      using assms(3) k1 by (simp add: sorted_wrt_iff_nth_less)
    have "years ! Suc k - years ! k < 2 ^ 63" using assms(4) k1 by blast
    moreover have "0 \<le> years ! Suc k - years ! k" using lt by simp
    ultimately have wrap: "int64_wrap (years ! Suc k - years ! k) = years ! Suc k - years ! k"
      by (intro int64_wrap_id)
    have row: "?rows ! k = growth_row_at years values (Suc k)"
      using k by (simp add: nth_map_upt)
    show "period_start (?rows ! k) = years ! k
               \<and> period_end (?rows ! k) = years ! (k + 1)
               \<and> start_value (?rows ! k) = values ! k
               \<and> end_value (?rows ! k) = values ! (k + 1)
               \<and> period_years (?rows ! k) = years ! (k + 1) - years ! k
               \<and> total_growth_pp (?rows ! k) = values ! (k + 1) - values ! k
               \<and> 0 < period_years (?rows ! k)
               \<and> annual_growth_pp (?rows ! k) =
                   Fin (total_growth_pp (?rows ! k) / real_of_int (period_years (?rows ! k)))"
      unfolding row using lt by (simp add: growth_row_at_def of_year_def wrap)
  qed
  with eq len show ?thesis by blast
qed

theorem calculate_growth_rates_rows_witness:
  "length [43, 46, 49 :: real] = length [2017, 2021, 2024 :: int]
   \<and> 2 \<le> length [2017, 2021, 2024 :: int]
   \<and> sorted_wrt (<) [2017, 2021, 2024 :: int]
   \<and> [2017, 2021, 2024 :: int] ! 1 - [2017, 2021, 2024] ! 0 < 2 ^ 63
   \<and> [2017, 2021, 2024 :: int] ! 2 - [2017, 2021, 2024] ! 1 < 2 ^ 63
   \<and> (case calculate_growth_rates [2017, 2021, 2024] [43, 46, 49] of
         Inl e \<Rightarrow> False
       | Inr rows \<Rightarrow> length rows = 2 \<and> period_years (rows ! 0) = 4
                     \<and> total_growth_pp (rows ! 0) = 3
                     \<and> annual_growth_pp (rows ! 0) = Fin (3 / 4))"
proof -
  have a: "length [43, 46, 49 :: real] = length [2017, 2021, 2024 :: int]" by simp
  have b: "2 \<le> length [2017, 2021, 2024 :: int]" by simp
  have c: "sorted_wrt (<) [2017, 2021, 2024 :: int]" by simp
  have d0: "\<forall>k. Suc k < length [2017, 2021, 2024 :: int] \<longrightarrow>
              [2017, 2021, 2024 :: int] ! Suc k - [2017, 2021, 2024] ! k < 2 ^ 63"
  proof (intro allI impI)
    fix k assume "Suc k < length [2017, 2021, 2024 :: int]"
    then have "k = 0 \<or> k = 1" by auto
    then show "[2017, 2021, 2024 :: int] ! Suc k - [2017, 2021, 2024] ! k < 2 ^ 63" by auto
  qed
  from calculate_growth_rates_rows [OF a b c d0]
  obtain rows where eq: "calculate_growth_rates [2017, 2021, 2024] [43, 46, 49] = Inr rows"
    and len: "length rows = length [2017, 2021, 2024 :: int] - 1"
    and all: "\<forall>k < length rows.
                 period_start (rows ! k) = [2017, 2021, 2024] ! k
               \<and> period_end (rows ! k) = [2017, 2021, 2024] ! (k + 1)
               \<and> start_value (rows ! k) = [43, 46, 49] ! k
               \<and> end_value (rows ! k) = [43, 46, 49] ! (k + 1)
               \<and> period_years (rows ! k) = [2017, 2021, 2024] ! (k + 1) - [2017, 2021, 2024] ! k
               \<and> total_growth_pp (rows ! k) = [43, 46, 49] ! (k + 1) - [43, 46, 49] ! k
               \<and> 0 < period_years (rows ! k)
               \<and> annual_growth_pp (rows ! k) =
                   Fin (total_growth_pp (rows ! k) / real_of_int (period_years (rows ! k)))"
    by blast
  from len have l2: "length rows = 2" by simp
  from all l2 have "period_years (rows ! 0) = 4 \<and> total_growth_pp (rows ! 0) = 3
      \<and> annual_growth_pp (rows ! 0) = Fin (3 / 4)" by simp
  with l2 have d: "(case calculate_growth_rates [2017, 2021, 2024] [43, 46, 49] of
         Inl e \<Rightarrow> False
       | Inr rows \<Rightarrow> length rows = 2 \<and> period_years (rows ! 0) = 4
                     \<and> total_growth_pp (rows ! 0) = 3
                     \<and> annual_growth_pp (rows ! 0) = Fin (3 / 4))"
    by (simp add: eq)
  have e1: "[2017, 2021, 2024 :: int] ! 1 - [2017, 2021, 2024] ! 0 < 2 ^ 63" by simp
  have e2: "[2017, 2021, 2024 :: int] ! 2 - [2017, 2021, 2024] ! 1 < 2 ^ 63" by simp
  from a b c e1 e2 d show ?thesis by (intro conjI)
qed

text \<open>
  Claim C9 says that fewer than two pairs signal an error. They do not: the loop over
  \<open>range(1, len(years))\<close> runs zero times and an empty table is returned.
\<close>

theorem calculate_growth_rates_no_error_counterexample:
  "calculate_growth_rates [2024] [49] = Inr []
   \<and> calculate_growth_rates [] [] = Inr []"
  by (simp add: calculate_growth_rates_def)

text \<open>
  Claim C9, amended: with fewer than two pairs the analyzer returns a table with no rows
  and signals no error.
\<close>

theorem calculate_growth_rates_short:
  "length years < 2 \<Longrightarrow> calculate_growth_rates years values = Inr []"
proof -
  assume "length years < 2"
  then have "[1 ..< length years] = []" by simp
  then show ?thesis unfolding calculate_growth_rates_def by (simp only: growth_loop.simps)
qed

theorem calculate_growth_rates_short_witness:
  "length [2024 :: int] < 2 \<and> calculate_growth_rates [2024] [49] = Inr []"
  using calculate_growth_rates_short [of "[2024]" "[49]"] by simp

section \<open>Properties of the trend forecasters\<close>

text \<open>
  Claim C1. For at least two historical points with two distinct years, and any forecast
  years, the line fitted by \<open>linear_trend_forecast\<close> minimises the sum of squared errors
  over all lines (ordinary least squares), the point forecast for a year \<open>y\<close> is
  \<open>slope * y + intercept\<close>, the standard error is the population standard deviation of the
  residuals (observed minus fitted), and the bounds are the forecast minus and plus
  \<open>1.96 * std_error * sqrt (1 + 1/n + (y - mean)\<^sup>2 / sum of squared deviations)\<close>.
  All returned values are finite.
\<close>

theorem linear_trend_forecast_ols:
  assumes len: "length values = length years" and n2: "2 \<le> length years"
    and ab: "a \<in> set years" "b \<in> set years" "a \<noteq> b"
  shows "let xs = map real_of_int years;
             slope = ols_slope xs values;
             intercept = ols_intercept xs values;
             std_error = pop_std (residuals_of slope intercept xs values)
         in (\<forall>a' b'. sq_error slope intercept xs values \<le> sq_error a' b' xs values)
          \<and> linear_trend_forecast years values forecast_years =
              Inr (map (\<lambda>y. Fin (slope * real_of_int y + intercept)) forecast_years,
                   map (\<lambda>y. Fin (slope * real_of_int y + intercept
                                 - linear_margin std_error xs (real_of_int y))) forecast_years,
                   map (\<lambda>y. Fin (slope * real_of_int y + intercept
                                 + linear_margin std_error xs (real_of_int y))) forecast_years)"
proof -
  let ?xs = "map real_of_int years"
  have ne: "years \<noteq> []" using n2 by auto
  have "real_of_int a \<in> set ?xs" "real_of_int b \<in> set ?xs" "real_of_int a \<noteq> real_of_int b"
    using ab by simp_all
  then have sxx: "sum_sq_dev ?xs \<noteq> 0" by (rule sum_sq_dev_distinct)
  have "?xs \<noteq> []" "length ?xs = length values" using ne len by simp_all
  then have A: "\<forall>a' b'. sq_error (ols_slope ?xs values) (ols_intercept ?xs values) ?xs values
                 \<le> sq_error a' b' ?xs values"
    using ols_minimal [OF _ _ sxx] by blast
  note B = linear_trend_forecast_valid [OF len ne sxx, of forecast_years]
  show ?thesis unfolding Let_def by (rule conjI [OF A B])
qed

theorem linear_trend_forecast_ols_witness:
  "length [10, 12, 14 :: real] = length [2020, 2021, 2022 :: int]
   \<and> 2 \<le> length [2020, 2021, 2022 :: int]
   \<and> (2020 :: int) \<in> set [2020, 2021, 2022] \<and> (2021 :: int) \<in> set [2020, 2021, 2022]
   \<and> (2020 :: int) \<noteq> 2021
   \<and> linear_trend_forecast [2020, 2021, 2022] [10, 12, 14] [2023] =
       Inr ([Fin 16], [Fin 16], [Fin 16])"
proof -
  have a: "length [10, 12, 14 :: real] = length [2020, 2021, 2022 :: int]" by simp
  have b: "2 \<le> length [2020, 2021, 2022 :: int]" by simp
  have c: "(2020 :: int) \<in> set [2020, 2021, 2022]" by simp
  have d: "(2021 :: int) \<in> set [2020, 2021, 2022]" by simp
  have e: "(2020 :: int) \<noteq> 2021" by simp
  have m: "mean_of [2020, 2021, 2022] = 2021" "mean_of [10, 12, 14] = 12"
    by (simp_all add: mean_of_def)
  have ss: "sum_sq_dev [2020, 2021, 2022] = 2" by (simp add: sum_sq_dev_def m)
  have sl: "ols_slope [2020, 2021, 2022] [10, 12, 14] = 2" by (simp add: ols_slope_def m ss)
  have ic: "ols_intercept [2020, 2021, 2022] [10, 12, 14] = - 4030"
    by (simp add: ols_intercept_def m sl)
  have rs: "residuals_of 2 (- 4030) [2020, 2021, 2022] [10, 12, 14] = [0, 0, 0]"
    by (simp add: residuals_of_def)
  have se: "pop_std [0, 0, 0] = 0"
    by (simp add: pop_std_def sum_sq_dev_def mean_of_def)
  from linear_trend_forecast_ols [OF a b c d e, of "[2023]"]
  have f: "linear_trend_forecast [2020, 2021, 2022] [10, 12, 14] [2023] =
       Inr ([Fin 16], [Fin 16], [Fin 16])"
    by (simp add: Let_def sl ic rs se linear_margin_def)
  from a b c d e f show ?thesis by (intro conjI)
qed








text \<open>
  Claim C4 says that one historical point, or historical years that are all the same, make
  both forecasters signal an error. Neither function checks its input, and numpy signals
  nothing here: the rank-deficient fit only warns, a division by zero gives infinity or
  not-a-number, and the module silences warnings. With the single point (2020, 10) the
  linear forecaster returns not-a-number bounds, with the points (2020, 10) and (2020, 12)
  it returns infinite bounds, and the logarithmic forecaster returns a finite degenerate fit.
\<close>

theorem trend_forecast_no_error_counterexample:
  "linear_trend_forecast [2020] [10] [2021] = Inr ([Fin (4041 / 404)], [NaN], [NaN])
   \<and> linear_trend_forecast [2020, 2020] [10, 12] [2021] =
       Inr ([Fin (44451 / 4040)], [NInf], [PInf])
   \<and> log_trend_forecast [2020] [10] [2021] =
       Inr ([Fin (5 * ln 3 / ln 2 + 5)], [Fin (5 * ln 3 / ln 2 + 5)], [Fin (5 * ln 3 / ln 2 + 5)])"
proof (intro conjI)
  show "linear_trend_forecast [2020] [10] [2021] = Inr ([Fin (4041 / 404)], [NaN], [NaN])"
    by (simp add: linear_trend_forecast_def polyfit_def lstsq_line_def np_std_def np_mean_def
          np_sum_def np_square_def of_year_def Let_def minus_npfloat_def)
  show "linear_trend_forecast [2020, 2020] [10, 12] [2021] =
       Inr ([Fin (44451 / 4040)], [NInf], [PInf])"
    by (simp add: linear_trend_forecast_def polyfit_def lstsq_line_def np_std_def np_mean_def
          np_sum_def np_square_def of_year_def Let_def minus_npfloat_def)
  show "log_trend_forecast [2020] [10] [2021] =
       Inr ([Fin (5 * ln 3 / ln 2 + 5)], [Fin (5 * ln 3 / ln 2 + 5)], [Fin (5 * ln 3 / ln 2 + 5)])"
    by (simp add: log_trend_forecast_def np_min_def polyfit_def lstsq_line_def np_std_def
          np_mean_def np_sum_def np_square_def of_year_def Let_def minus_npfloat_def)
qed

text \<open>
  Claim C4, amended. With at least one historical point and all historical years equal
  (one point is the special case), both forecasters return a result and signal no error.
  For the linear forecaster, when the common year is not zero, every point forecast is
  finite and every lower and upper bound is infinite or not-a-number.
\<close>

theorem trend_forecast_degenerate_returns:
  assumes ne: "years \<noteq> []" and len: "length values = length years"
    and same: "\<forall>y \<in> set years. y = y0"
  shows "(y0 \<noteq> 0 \<longrightarrow>
            (\<exists>f l u. linear_trend_forecast years values forecast_years = Inr (f, l, u)
               \<and> length f = length forecast_years \<and> length l = length forecast_years
               \<and> length u = length forecast_years
               \<and> (\<forall>i < length forecast_years.
                     is_fin (f ! i) \<and> \<not> is_fin (l ! i) \<and> \<not> is_fin (u ! i))))
       \<and> (\<exists>f l u. log_trend_forecast years values forecast_years = Inr (f, l, u)
               \<and> length f = length forecast_years \<and> length l = length forecast_years
               \<and> length u = length forecast_years)"
proof (intro conjI impI)
  assume nz: "y0 \<noteq> 0"
  from linear_trend_forecast_degenerate [OF ne len same nz, of forecast_years]
  obtain mg where nf: "\<forall>y. \<not> is_fin (mg y)"
    and eq: "linear_trend_forecast years values forecast_years =
       Inr (map (\<lambda>y. Fin (mean_of values / (2 * real_of_int y0) * real_of_int y
                           + mean_of values / 2)) forecast_years,
            map (\<lambda>y. Fin (mean_of values / (2 * real_of_int y0) * real_of_int y
                           + mean_of values / 2) - mg y) forecast_years,
            map (\<lambda>y. Fin (mean_of values / (2 * real_of_int y0) * real_of_int y
                           + mean_of values / 2) + mg y) forecast_years)"
    by blast
  show "\<exists>f l u. linear_trend_forecast years values forecast_years = Inr (f, l, u)
               \<and> length f = length forecast_years \<and> length l = length forecast_years
               \<and> length u = length forecast_years
               \<and> (\<forall>i < length forecast_years.
                     is_fin (f ! i) \<and> \<not> is_fin (l ! i) \<and> \<not> is_fin (u ! i))"
    unfolding eq using nf by (simp add: not_fin_sub not_fin_add)
next
  show "\<exists>f l u. log_trend_forecast years values forecast_years = Inr (f, l, u)
               \<and> length f = length forecast_years \<and> length l = length forecast_years
               \<and> length u = length forecast_years"
    by (rule log_trend_forecast_degenerate [OF ne len same])
qed

theorem trend_forecast_degenerate_returns_witness:
  "[2020 :: int] \<noteq> [] \<and> length [10 :: real] = length [2020 :: int]
   \<and> (2020 :: int) \<noteq> 0
   \<and> (case linear_trend_forecast [2020] [10] [2021] of
         Inl e \<Rightarrow> False
       | Inr (f, l, u) \<Rightarrow> is_fin (f ! 0) \<and> \<not> is_fin (l ! 0) \<and> \<not> is_fin (u ! 0))
   \<and> (case log_trend_forecast [2020] [10] [2021] of
         Inl e \<Rightarrow> False
       | Inr (f, l, u) \<Rightarrow> length f = 1)"
proof -
  have a: "[2020 :: int] \<noteq> []" by simp
  have b: "length [10 :: real] = length [2020 :: int]" by simp
  have c: "\<forall>y \<in> set [2020 :: int]. y = 2020" by simp
  have d: "(2020 :: int) \<noteq> 0" by simp
  note t = trend_forecast_degenerate_returns [OF a b c, of "[2021]"]
  from t d obtain f1 l1 u1 where
    "linear_trend_forecast [2020] [10] [2021] = Inr (f1, l1, u1)"
    "\<forall>i < length [2021 :: int]. is_fin (f1 ! i) \<and> \<not> is_fin (l1 ! i) \<and> \<not> is_fin (u1 ! i)"
    by blast
  then have g: "(case linear_trend_forecast [2020] [10] [2021] of
         Inl e \<Rightarrow> False
       | Inr (f, l, u) \<Rightarrow> is_fin (f ! 0) \<and> \<not> is_fin (l ! 0) \<and> \<not> is_fin (u ! 0))" by simp
  from t obtain f2 l2 u2 where
    "log_trend_forecast [2020] [10] [2021] = Inr (f2, l2, u2)"
    "length f2 = length [2021 :: int]" by blast
  then have h: "(case log_trend_forecast [2020] [10] [2021] of
         Inl e \<Rightarrow> False
       | Inr (f, l, u) \<Rightarrow> length f = 1)" by simp
  from a b d g h show ?thesis by (intro conjI)
qed

section \<open>Properties of the indicator forecast aggregator\<close>

text \<open>
  Claim C8 says that every data set with fewer than two digital-payment observations gives
  a result holding only the \<open>access\<close> key, never an error. The aggregator fits the
  account-ownership series without looking at its length, so a data set with no
  account-ownership observation makes \<open>np.polyfit\<close> raise a TypeError.
\<close>

theorem forecast_access_usage_error_counterexample:
  "forecast_access_usage
     [\<lparr>record_type = ''observation'', indicator_code = ''USG_DIGITAL_PAYMENT'',
       observation_date = (2024, 12, 31), value_numeric = 35\<rparr>] None = Inl TypeError"
  by (simp add: forecast_access_usage_def select_indicator_def indicator_entry_empty)

text \<open>
  Claim C8, amended. For a data set with fewer than two digital-payment observations and
  at least one account-ownership observation (observation years not zero), the aggregator
  returns a dictionary whose only key is \<open>access\<close>; its entry holds the forecast and bounds
  that \<open>linear_trend_forecast\<close> returns for the account-ownership series.
\<close>

theorem forecast_access_usage_partial:
  assumes usg: "length (filter (\<lambda>r. record_type r = ''observation''
                                  \<and> indicator_code r = ''USG_DIGITAL_PAYMENT'') df) < 2"
    and acc: "filter (\<lambda>r. record_type r = ''observation''
                         \<and> indicator_code r = ''ACC_OWNERSHIP'') df \<noteq> []"
    and nz: "\<forall>r \<in> set df. fst (observation_date r) \<noteq> 0"
  shows "let forecast_years = (case forecast_years_arg of
                                 None \<Rightarrow> [2025, 2026, 2027] | Some ys \<Rightarrow> ys);
             acc_data = select_indicator ''ACC_OWNERSHIP''
                          (filter (\<lambda>r. record_type r = ''observation'') df);
             acc_years = map (\<lambda>r. fst (observation_date r)) acc_data;
             acc_values = map value_numeric acc_data
         in \<exists>access f l u.
              forecast_access_usage df forecast_years_arg = Inr [(''access'', access)]
            \<and> linear_trend_forecast acc_years acc_values forecast_years = Inr (f, l, u)
            \<and> map_of access ''code'' = Some (PStr ''ACC_OWNERSHIP'')
            \<and> map_of access ''linear_forecast'' = Some (PFloatList f)
            \<and> map_of access ''linear_lower'' = Some (PFloatList l)
            \<and> map_of access ''linear_upper'' = Some (PFloatList u)"
proof -
  define fy where "fy = (case forecast_years_arg of
                           None \<Rightarrow> [2025, 2026, 2027 :: int] | Some ys \<Rightarrow> ys)"
  define obs where "obs = filter (\<lambda>r. record_type r = ''observation'') df"
  define acc_data where "acc_data = select_indicator ''ACC_OWNERSHIP'' obs"
  define years where "years = map (\<lambda>r. fst (observation_date r)) acc_data"
  define vals where "vals = map value_numeric acc_data"
  have "length acc_data = length (filter (\<lambda>r. record_type r = ''observation''
                         \<and> indicator_code r = ''ACC_OWNERSHIP'') df)"
    unfolding acc_data_def obs_def by (rule length_select_indicator)
  with acc have "acc_data \<noteq> []" by auto
  then have ne: "years \<noteq> []" by (simp add: years_def)
  have len: "length vals = length years" by (simp add: vals_def years_def)
  have "set acc_data \<subseteq> set df"
    unfolding acc_data_def obs_def by (auto simp: set_select_indicator)
  with nz have nz': "0 \<notin> set years" by (auto simp: years_def)
  from indicator_entry_returns [OF ne len nz', of "''Account Ownership Rate''"
      "''ACC_OWNERSHIP''" 60 fy]
  obtain access f l u where
    entry: "indicator_entry ''Account Ownership Rate'' ''ACC_OWNERSHIP'' 60 years vals fy
              = Inr access"
    and rest: "linear_trend_forecast years vals fy = Inr (f, l, u)"
      "map_of access ''code'' = Some (PStr ''ACC_OWNERSHIP'')"
      "map_of access ''linear_forecast'' = Some (PFloatList f)"
      "map_of access ''linear_lower'' = Some (PFloatList l)"
      "map_of access ''linear_upper'' = Some (PFloatList u)"
    by blast
  have "length (select_indicator ''USG_DIGITAL_PAYMENT'' obs) < 2"
    unfolding obs_def using usg by (simp only: length_select_indicator)
  then have few: "\<not> 2 \<le> length (select_indicator ''USG_DIGITAL_PAYMENT'' obs)" by simp
  have "forecast_access_usage df forecast_years_arg = Inr [(''access'', access)]"
    unfolding forecast_access_usage_def Let_def
      fy_def [symmetric] obs_def [symmetric] acc_data_def [symmetric]
      years_def [symmetric] vals_def [symmetric] entry
    using few by simp
  with rest show ?thesis
    unfolding Let_def fy_def [symmetric] obs_def [symmetric] acc_data_def [symmetric]
      years_def [symmetric] vals_def [symmetric]
    by blast
qed

theorem forecast_access_usage_partial_witness:
  "length (filter (\<lambda>r. record_type r = ''observation''
                      \<and> indicator_code r = ''USG_DIGITAL_PAYMENT'')
      [\<lparr>record_type = ''observation'', indicator_code = ''ACC_OWNERSHIP'',
        observation_date = (2021, 12, 31), value_numeric = 46\<rparr>,
       \<lparr>record_type = ''observation'', indicator_code = ''ACC_OWNERSHIP'',
        observation_date = (2024, 12, 31), value_numeric = 49\<rparr>,
       \<lparr>record_type = ''observation'', indicator_code = ''USG_DIGITAL_PAYMENT'',
        observation_date = (2024, 12, 31), value_numeric = 35\<rparr>]) < 2
   \<and> (case forecast_access_usage
        [\<lparr>record_type = ''observation'', indicator_code = ''ACC_OWNERSHIP'',
          observation_date = (2021, 12, 31), value_numeric = 46\<rparr>,
         \<lparr>record_type = ''observation'', indicator_code = ''ACC_OWNERSHIP'',
          observation_date = (2024, 12, 31), value_numeric = 49\<rparr>,
         \<lparr>record_type = ''observation'', indicator_code = ''USG_DIGITAL_PAYMENT'',
          observation_date = (2024, 12, 31), value_numeric = 35\<rparr>] None of
        Inl e \<Rightarrow> False
      | Inr results \<Rightarrow> map fst results = [''access''])"
proof -
  let ?df = "[\<lparr>record_type = ''observation'', indicator_code = ''ACC_OWNERSHIP'',
          observation_date = (2021, 12, 31), value_numeric = 46\<rparr>,
         \<lparr>record_type = ''observation'', indicator_code = ''ACC_OWNERSHIP'',
          observation_date = (2024 :: int, 12 :: int, 31 :: int), value_numeric = 49\<rparr>,
         \<lparr>record_type = ''observation'', indicator_code = ''USG_DIGITAL_PAYMENT'',
          observation_date = (2024, 12, 31), value_numeric = 35\<rparr>]"
  have a: "length (filter (\<lambda>r. record_type r = ''observation''
                      \<and> indicator_code r = ''USG_DIGITAL_PAYMENT'') ?df) < 2" by simp
  have b: "filter (\<lambda>r. record_type r = ''observation''
                         \<and> indicator_code r = ''ACC_OWNERSHIP'') ?df \<noteq> []" by simp
  have c: "\<forall>r \<in> set ?df. fst (observation_date r) \<noteq> 0" by simp
  from forecast_access_usage_partial [OF a b c, of None]
  obtain access where "forecast_access_usage ?df None = Inr [(''access'', access)]"
    unfolding Let_def by blast
  then have d: "(case forecast_access_usage ?df None of
        Inl e \<Rightarrow> False
      | Inr results \<Rightarrow> map fst results = [''access''])" by simp
  from a d show ?thesis by (intro conjI)
qed

end
